theory Spec2Isabelle
  imports Complex_Main
begin

section \<open>The execution loops of libkloudtrader/algorithm.py\<close>

text \<open>
  The module has two entry points, \<^verbatim>\<open>run_backtest\<close> and \<^verbatim>\<open>run_live\<close>. Both drive a
  user-supplied strategy over bars that come from collaborators outside the module (the
  data sources of \<^verbatim>\<open>Data_Types\<close>, \<^verbatim>\<open>stocks.intraday_status\<close>,
  \<^verbatim>\<open>crypto.exchange_attribute\<close>, \<^verbatim>\<open>time.sleep\<close>, the logger). Everything the two
  functions do to the outside is recorded, in order, in a trace of events; the answers of
  the collaborators are read from a \<open>world\<close>. The time of a call is the number of events
  recorded before it, so that a collaborator may answer differently as the run goes on.
\<close>

subsection \<open>Values\<close>

type_synonym symbol = string
type_synonym timestamp = int

text \<open>A bar is one row of a data frame: the values of its columns.\<close>

type_synonym bar = "rat list"

text \<open>What a historical source returns: the rows of a data frame with their index.\<close>

type_synonym series = "(timestamp \<times> bar) list"

text \<open>
  The exceptions that reach the two \<^verbatim>\<open>try\<close> blocks. \<open>KeyboardInterrupt\<close> and
  \<open>SystemExit\<close> are the two classes of the first \<^verbatim>\<open>except\<close> clause.
  \<open>GeneratorExit\<close> and \<open>Base_exception\<close> (any other class derived from
  \<^verbatim>\<open>BaseException\<close> alone, \<^verbatim>\<open>asyncio.CancelledError\<close> for one) are in neither
  clause. Every other constructor is a subclass of \<^verbatim>\<open>Exception\<close>, the class of the
  second clause: \<open>EmptySymbolBucket\<close> and \<open>InvalidDataFeedType\<close> are the classes the
  module imports from \<^verbatim>\<open>libkloudtrader.exceptions\<close>, and \<open>Failure\<close> stands for any
  other \<^verbatim>\<open>Exception\<close> a collaborator or the strategy raises.
\<close>

datatype exn =
    KeyboardInterrupt
  | SystemExit
  | GeneratorExit
  | Base_exception string
  | KeyError string
  | NameError string
  | IndexError
  | InvalidCapacity
  | InvalidDataFeedType
  | EmptySymbolBucket
  | Failure string

text \<open>\<^verbatim>\<open>isinstance(e, (KeyboardInterrupt, SystemExit))\<close>, the test of lines 94 and 146.\<close>

fun is_interrupt :: "exn \<Rightarrow> bool" where
  "is_interrupt KeyboardInterrupt = True"
| "is_interrupt SystemExit = True"
| "is_interrupt _ = False"

text \<open>\<^verbatim>\<open>isinstance(e, Exception)\<close>, the test of lines 98 and 150.\<close>

fun is_exception :: "exn \<Rightarrow> bool" where
  "is_exception KeyboardInterrupt = False"
| "is_exception SystemExit = False"
| "is_exception GeneratorExit = False"
| "is_exception (Base_exception c) = False"
| "is_exception _ = True"

subsection \<open>The rolling buffer\<close>

text \<open>Modelled from the spec: \<^verbatim>\<open>processing.Buffer\<close> (the module
  \<^verbatim>\<open>libkloudtrader.processing\<close> is not among the sources). The spec's RollingBuffer:
  a fixed capacity \<open>C\<close>, construction fails with \<open>InvalidCapacity\<close> when \<open>C < 1\<close>,
  \<open>append\<close> drops the oldest element first when the length equals \<open>C\<close>, the contents
  are kept in insertion order, \<open>len\<close> is the occupancy. \<^verbatim>\<open>popleft\<close> removes the
  oldest element (the eviction of the live loop); on an empty buffer it raises.
\<close>

record buffer =
  capacity :: nat
  items :: "bar list"

text \<open>Modelled from the spec: the constructor, which fails with \<open>InvalidCapacity\<close>
  when the capacity is less than 1.\<close>

definition Buffer :: "int \<Rightarrow> exn + buffer" where
  "Buffer c =
     (if c < 1 then Inl InvalidCapacity
      else Inr \<lparr>capacity = nat c, items = []\<rparr>)"

text \<open>Modelled from the spec: \<^verbatim>\<open>append\<close>, which drops the oldest element before it
  stores the new one when the length equals the capacity.\<close>

definition append :: "buffer \<Rightarrow> bar \<Rightarrow> buffer" where
  "append b x =
     (if length (items b) = capacity b then b\<lparr>items := tl (items b) @ [x]\<rparr>
      else b\<lparr>items := items b @ [x]\<rparr>)"

text \<open>Modelled from the spec: \<^verbatim>\<open>popleft\<close>, the eviction of the oldest entry.\<close>

definition popleft :: "buffer \<Rightarrow> exn + buffer" where
  "popleft b =
     (case items b of [] \<Rightarrow> Inl IndexError | _ # rest \<Rightarrow> Inr (b\<lparr>items := rest\<rparr>))"

text \<open>Modelled from the spec: \<^verbatim>\<open>len\<close>, the current occupancy.\<close>

definition len :: "buffer \<Rightarrow> int" where
  "len b = int (length (items b))"

text \<open>\<^verbatim>\<open>pd.DataFrame(batch)\<close>: the window handed to the strategy, the rows in order.\<close>

definition DataFrame :: "buffer \<Rightarrow> bar list" where
  "DataFrame b = items b"

subsection \<open>The execution context of a backtest\<close>

text \<open>Modelled from the spec: \<^verbatim>\<open>bt.Backtest\<close> (the module
  \<^verbatim>\<open>libkloudtrader.backtest\<close> is not among the sources). The spec's
  ExecutionContext holds capital, commission rate and slippage flag, and forwards every
  bar to the ledger, which is append-only.
\<close>

record exec_context =
  capital :: rat
  commission :: rat
  enable_slippage :: bool
  ledger :: series

text \<open>Modelled from the spec: the constructor, called with \<^verbatim>\<open>capital\<close>,
  \<^verbatim>\<open>commission\<close> and \<^verbatim>\<open>enable_slippage\<close>.\<close>

definition Backtest :: "rat \<Rightarrow> rat \<Rightarrow> bool \<Rightarrow> exec_context" where
  "Backtest cap com slip =
     \<lparr>capital = cap, commission = com, enable_slippage = slip, ledger = []\<rparr>"

text \<open>Modelled from the spec: \<^verbatim>\<open>update_bar\<close>, which forwards the bar to the ledger.\<close>

definition update_bar :: "exec_context \<Rightarrow> timestamp \<Rightarrow> bar \<Rightarrow> exec_context" where
  "update_bar c dt b = c\<lparr>ledger := ledger c @ [(dt, b)]\<rparr>"

subsection \<open>Events\<close>

datatype level = Info | Error | Critical

text \<open>
  The messages of the module, by their format string; the arguments are the values
  formatted into it (\<open>Stopped\<close> is "User's keyboard prompt stopped \{\}", \<open>Exiting\<close>
  is "Exiting \{\}...").
\<close>

datatype message =
    Starting_backtest string string string rat
  | Entering_live string
  | Stopped string
  | Exiting string
  | Oops_backtest
  | Oops_live

text \<open>
  \<open>Sleep s\<close> is \<^verbatim>\<open>time.sleep(s)\<close>, with \<open>s\<close> the exact quotient of the delay by
  1000. \<open>Strategy_backtest c d\<close> and \<open>Strategy_live d\<close> are the two calls of the
  strategy, with the arguments it receives.
\<close>

datatype event =
    Log level message
  | Print_newline
  | Historical string symbol string string string
  | New_backtest rat rat bool
  | Update_bar timestamp bar
  | Strategy_backtest exec_context "bar list"
  | Print_trade_log exec_context
  | Exchange_attribute string
  | Intraday_status
  | Live_feed string symbol bool
  | Strategy_live "bar list"
  | Sleep rat

type_synonym trace = "event list"

subsection \<open>The collaborators\<close>

text \<open>
  The strategy is a callable with a \<^verbatim>\<open>__name__\<close>. In a backtest it receives the
  context and the window, may change the context and may raise; in a live run it
  receives the window only. The first argument is the time of the call.
\<close>

record strategy =
  name :: string
  on_backtest :: "nat \<Rightarrow> exec_context \<Rightarrow> bar list \<Rightarrow> exn + exec_context"
  on_live :: "nat \<Rightarrow> bar list \<Rightarrow> exn option"

text \<open>
  \<open>historical\<close> and \<open>live\<close> are the two kinds of members of the enumeration
  \<^verbatim>\<open>Data_Types\<close> (\<^verbatim>\<open>libkloudtrader.enumerables\<close> is not among the sources, so the
  registry is a parameter): an identifier that is not a member raises \<open>KeyError\<close>.
  \<open>intraday_status\<close> answers with the \<^verbatim>\<open>'state'\<close> entry of
  \<^verbatim>\<open>stocks.intraday_status()\<close>, the market state at that time.
  \<open>sleep\<close> says whether an interrupt arrives during a \<^verbatim>\<open>time.sleep\<close>.
\<close>

record world =
  historical :: "string \<rightharpoonup> (symbol \<Rightarrow> string \<Rightarrow> string \<Rightarrow> string \<Rightarrow> exn + series)"
  live :: "string \<rightharpoonup> (nat \<Rightarrow> symbol \<Rightarrow> bool \<Rightarrow> exn + bar)"
  intraday_status :: "nat \<Rightarrow> exn + string"
  exchange_attribute :: "string \<Rightarrow> exn + rat"
  sleep :: "nat \<Rightarrow> exn option"

subsection \<open>The failure boundary\<close>

text \<open>
  The two \<^verbatim>\<open>except\<close> clauses that close both functions. An interrupt is logged and the
  function returns; an \<^verbatim>\<open>Exception\<close> is logged and raised again; an exception that
  matches neither clause leaves the function as it is, with nothing logged. \<open>oops\<close> is
  the message of the \<^verbatim>\<open>logger.error\<close> call, which differs between the two functions.
\<close>

definition on_exception :: "strategy \<Rightarrow> message \<Rightarrow> trace \<Rightarrow> exn \<Rightarrow> trace \<times> (exn + unit)" where
  "on_exception st oops tr e =
     (if is_interrupt e
      then (tr @ [Print_newline, Log Critical (Stopped (name st))], Inr ())
      else if is_exception e
      then (tr @ [Log Critical (Exiting (name st)), Log Error oops], Inl e)
      else (tr, Inl e))"

subsection \<open>run\_backtest\<close>

text \<open>
  The inner \<^verbatim>\<open>for datetime, bar in data_batch.iterrows()\<close> (lines 50 to 55): append
  the bar to the buffer, forward it to the context, rebuild the window from the buffer,
  call the strategy with the context and the window.
\<close>

fun bars_loop ::
  "strategy \<Rightarrow> series \<Rightarrow> buffer \<Rightarrow> exec_context \<Rightarrow> trace \<Rightarrow> trace \<times> (exn + exec_context)" where
  "bars_loop st [] batch backtest tr = (tr, Inr backtest)"
| "bars_loop st ((dt, b) # rest) batch backtest tr =
     (let batch1 = append batch b;
          backtest1 = update_bar backtest dt b;
          tr1 = tr @ [Update_bar dt b];
          data_batch = DataFrame batch1;
          tr2 = tr1 @ [Strategy_backtest backtest1 data_batch]
      in case on_backtest st (length tr1) backtest1 data_batch of
           Inl e \<Rightarrow> (tr2, Inl e)
         | Inr backtest2 \<Rightarrow> bars_loop st rest batch1 backtest2 tr2)"

text \<open>
  The outer \<^verbatim>\<open>for symbol in symbol_bucket\<close> (lines 43 to 58). The context is built
  from the literals of line 49.
\<close>

fun symbols_loop ::
  "strategy \<Rightarrow> string \<Rightarrow> (symbol \<Rightarrow> string \<Rightarrow> string \<Rightarrow> string \<Rightarrow> exn + series) \<Rightarrow>
   symbol list \<Rightarrow> string \<Rightarrow> string \<Rightarrow> string \<Rightarrow> trace \<Rightarrow> trace \<times> (exn + unit)" where
  "symbols_loop st data src [] start end data_interval tr = (tr, Inr ())"
| "symbols_loop st data src (symbol # rest) start end data_interval tr =
     (let tr1 = tr @ [Historical data symbol start end data_interval]
      in case src symbol start end data_interval of
           Inl e \<Rightarrow> (tr1, Inl e)
         | Inr data_batch \<Rightarrow>
             (case Buffer (int (length data_batch)) of
                Inl e \<Rightarrow> (tr1, Inl e)
              | Inr batch \<Rightarrow>
                  (let backtest = Backtest 100000 1 True;
                       tr2 = tr1 @ [New_backtest 100000 1 True]
                   in case bars_loop st data_batch batch backtest tr2 of
                        (tr3, Inl e) \<Rightarrow> (tr3, Inl e)
                      | (tr3, Inr backtest1) \<Rightarrow>
                          symbols_loop st data src rest start end data_interval
                            (tr3 @ [Print_trade_log backtest1]))))"

text \<open>The \<^verbatim>\<open>try\<close> block of \<^verbatim>\<open>run_backtest\<close> (lines 39 to 58).\<close>

definition backtest_body ::
  "world \<Rightarrow> strategy \<Rightarrow> symbol list \<Rightarrow> string \<Rightarrow> string \<Rightarrow> string \<Rightarrow> string \<Rightarrow>
   rat \<Rightarrow> trace \<times> (exn + unit)" where
  "backtest_body w st symbol_bucket data start end data_interval initial_capital =
     (let tr0 = [Log Info (Starting_backtest (name st) start end initial_capital)]
      in case historical w data of
           None \<Rightarrow> (tr0, Inl (KeyError data))
         | Some data_to_backtest_on \<Rightarrow>
             symbols_loop st data data_to_backtest_on symbol_bucket start end
               data_interval tr0)"

text \<open>
  \<^verbatim>\<open>run_backtest\<close> with its parameters in the order of the source. The function reads
  \<open>preferred_price_point\<close>, \<open>preferred_benchmark\<close>, \<open>commission\<close> and \<open>slippage\<close>
  nowhere.
\<close>

definition run_backtest ::
  "world \<Rightarrow> strategy \<Rightarrow> symbol list \<Rightarrow> string \<Rightarrow> string \<Rightarrow> string \<Rightarrow> string \<Rightarrow>
   string \<Rightarrow> string \<Rightarrow> rat \<Rightarrow> rat \<Rightarrow> bool \<Rightarrow> trace \<times> (exn + unit)" where
  "run_backtest w st symbol_bucket data start end data_interval preferred_price_point
     preferred_benchmark initial_capital commission_arg slippage =
     (case backtest_body w st symbol_bucket data start end data_interval initial_capital of
        (tr, Inr u) \<Rightarrow> (tr, Inr u)
      | (tr, Inl e) \<Rightarrow> on_exception st Oops_backtest tr e)"

subsection \<open>run\_live\<close>

text \<open>
  \<^verbatim>\<open>str.lower\<close> on the letters A to Z (a \<open>char\<close> is a byte, so letters outside ASCII
  are left as they are).
\<close>

definition lower_char :: "char \<Rightarrow> char" where
  "lower_char c =
     (let n = (of_char c :: nat)
      in if 65 \<le> n \<and> n \<le> 90 then char_of (n + 32) else c)"

definition lower :: "string \<Rightarrow> string" where
  "lower s = map lower_char s"

text \<open>
  The symbol bucket as \<^verbatim>\<open>run_live\<close> receives it. The parameter is annotated
  \<^verbatim>\<open>list\<close>; lines 124 to 127 also look at what is not a list.
\<close>

datatype bucket = PyList "symbol list" | NdArray "symbol list" | Other_object

text \<open>
  Lines 124 to 127. A list becomes an array of the same symbols. For anything else the
  \<^verbatim>\<open>elif\<close> evaluates \<^verbatim>\<open>numpy.ndarray\<close>, and the module binds \<^verbatim>\<open>np\<close>, not
  \<^verbatim>\<open>numpy\<close>: the name lookup raises before the \<^verbatim>\<open>TypeError\<close> can.
\<close>

fun check_bucket :: "bucket \<Rightarrow> exn + symbol list" where
  "check_bucket (PyList xs) = Inr xs"
| "check_bucket (NdArray xs) = Inl (NameError ''numpy'')"
| "check_bucket Other_object = Inl (NameError ''numpy'')"

definition recognized :: "string list" where
  "recognized = [''CRYPTO_live_feed'', ''US_STOCKS_live_feed'', ''CRYPTO_live_feed_level2'']"

definition crypto_feeds :: "string list" where
  "crypto_feeds = [''CRYPTO_live_feed'', ''CRYPTO_live_feed_level2'']"

text \<open>
  A loop that may run forever takes fuel, and its outcome is \<open>None\<close> when the fuel is
  used up before the loop has ended: the trace is then what the run has done so far.
\<close>

type_synonym 'a outcome = "(exn + 'a) option"

text \<open>
  The \<^verbatim>\<open>for symbol in symbol_bucket\<close> of lines 139 to 145: poll the feed, append the
  bar, rebuild the window, call the strategy, evict the oldest bar when the buffer is
  full, sleep.
\<close>

fun poll_symbols ::
  "world \<Rightarrow> strategy \<Rightarrow> string \<Rightarrow> (nat \<Rightarrow> symbol \<Rightarrow> bool \<Rightarrow> exn + bar) \<Rightarrow> int \<Rightarrow> rat \<Rightarrow> bool \<Rightarrow>
   symbol list \<Rightarrow> buffer \<Rightarrow> trace \<Rightarrow> trace \<times> (exn + buffer)" where
  "poll_symbols w st feed data_feed batch_size delay fake_feed [] batch tr = (tr, Inr batch)"
| "poll_symbols w st feed data_feed batch_size delay fake_feed (symbol # rest) batch tr =
     (let tr1 = tr @ [Live_feed feed symbol fake_feed]
      in case data_feed (length tr) symbol fake_feed of
           Inl e \<Rightarrow> (tr1, Inl e)
         | Inr b \<Rightarrow>
             (let batch1 = append batch b;
                  data_batch = DataFrame batch1;
                  tr2 = tr1 @ [Strategy_live data_batch]
              in case on_live st (length tr1) data_batch of
                   Some e \<Rightarrow> (tr2, Inl e)
                 | None \<Rightarrow>
                     (case (if len batch1 = batch_size then popleft batch1 else Inr batch1) of
                        Inl e \<Rightarrow> (tr2, Inl e)
                      | Inr batch2 \<Rightarrow>
                          (let tr3 = tr2 @ [Sleep (delay / 1000)]
                           in case sleep w (length tr2) of
                                Some e \<Rightarrow> (tr3, Inl e)
                              | None \<Rightarrow>
                                  poll_symbols w st feed data_feed batch_size delay fake_feed
                                    rest batch2 tr3))))"

text \<open>The \<^verbatim>\<open>while len(batch) < batch_size\<close> of line 138.\<close>

fun polling_loop ::
  "nat \<Rightarrow> world \<Rightarrow> strategy \<Rightarrow> string \<Rightarrow> (nat \<Rightarrow> symbol \<Rightarrow> bool \<Rightarrow> exn + bar) \<Rightarrow> int \<Rightarrow> rat \<Rightarrow> bool \<Rightarrow>
   symbol list \<Rightarrow> buffer \<Rightarrow> trace \<Rightarrow> trace \<times> buffer outcome" where
  "polling_loop 0 w st feed data_feed batch_size delay fake_feed bucket batch tr = (tr, None)"
| "polling_loop (Suc fuel) w st feed data_feed batch_size delay fake_feed bucket batch tr =
     (if len batch < batch_size
      then (case poll_symbols w st feed data_feed batch_size delay fake_feed bucket batch tr of
              (tr1, Inl e) \<Rightarrow> (tr1, Some (Inl e))
            | (tr1, Inr batch1) \<Rightarrow>
                polling_loop fuel w st feed data_feed batch_size delay fake_feed bucket batch1 tr1)
      else (tr, Some (Inr batch)))"

text \<open>
  The \<^verbatim>\<open>while stocks.intraday_status()['state'] not in exempted_states\<close> of line 136,
  with the buffer of line 137. The rest of line 136 is a comment in the source.
\<close>

fun market_loop ::
  "nat \<Rightarrow> world \<Rightarrow> strategy \<Rightarrow> string \<Rightarrow> (nat \<Rightarrow> symbol \<Rightarrow> bool \<Rightarrow> exn + bar) \<Rightarrow> string list \<Rightarrow> int \<Rightarrow>
   rat \<Rightarrow> bool \<Rightarrow> symbol list \<Rightarrow> trace \<Rightarrow> trace \<times> unit outcome" where
  "market_loop 0 w st feed data_feed exempted_states batch_size delay fake_feed bucket tr =
     (tr, None)"
| "market_loop (Suc fuel) w st feed data_feed exempted_states batch_size delay fake_feed bucket tr =
     (let tr1 = tr @ [Intraday_status]
      in case intraday_status w (length tr) of
           Inl e \<Rightarrow> (tr1, Some (Inl e))
         | Inr state \<Rightarrow>
             (if state \<notin> set exempted_states
              then (case Buffer batch_size of
                      Inl e \<Rightarrow> (tr1, Some (Inl e))
                    | Inr batch \<Rightarrow>
                        (case polling_loop fuel w st feed data_feed batch_size delay fake_feed
                                bucket batch tr1 of
                           (tr2, None) \<Rightarrow> (tr2, None)
                         | (tr2, Some (Inl e)) \<Rightarrow> (tr2, Some (Inl e))
                         | (tr2, Some (Inr batch1)) \<Rightarrow>
                             market_loop fuel w st feed data_feed exempted_states batch_size
                               delay fake_feed bucket tr2))
              else (tr1, Some (Inr ()))))"

text \<open>
  Lines 133 and 134: the delay of a crypto feed is the exchange's rate limit, whatever
  the caller passed.
\<close>

definition pacing ::
  "world \<Rightarrow> string \<Rightarrow> rat \<Rightarrow> trace \<Rightarrow> trace \<times> (exn + rat)" where
  "pacing w data_feed_type data_feed_delay tr =
     (if data_feed_type \<in> set crypto_feeds
      then (tr @ [Exchange_attribute ''rateLimit''], exchange_attribute w ''rateLimit'')
      else (tr, Inr data_feed_delay))"

text \<open>
  The \<^verbatim>\<open>try\<close> block of \<^verbatim>\<open>run_live\<close> (lines 120 to 145). The two comprehensions of
  lines 122 and 123 build lower-cased lists that are bound to no name.
\<close>

definition live_body ::
  "nat \<Rightarrow> world \<Rightarrow> strategy \<Rightarrow> bucket \<Rightarrow> string \<Rightarrow> string list \<Rightarrow> string list \<Rightarrow> string list \<Rightarrow>
   int \<Rightarrow> rat \<Rightarrow> bool \<Rightarrow> trace \<times> unit outcome" where
  "live_body fuel w st symbol_bucket data_feed_type exempted_states exempted_days exempted_dates
     batch_size data_feed_delay fake_feed =
     (let tr0 = [Log Info (Entering_live (name st))];
          unused_states = map lower exempted_states;
          unused_days = map lower exempted_days
      in case check_bucket symbol_bucket of
           Inl e \<Rightarrow> (tr0, Some (Inl e))
         | Inr bucket \<Rightarrow>
             (if data_feed_type \<notin> set recognized then (tr0, Some (Inl InvalidDataFeedType))
              else (case pacing w data_feed_type data_feed_delay tr0 of
                      (tr1, Inl e) \<Rightarrow> (tr1, Some (Inl e))
                    | (tr1, Inr delay) \<Rightarrow>
                        (case live w data_feed_type of
                           None \<Rightarrow> (tr1, Some (Inl (KeyError data_feed_type)))
                         | Some data_feed \<Rightarrow>
                             market_loop fuel w st data_feed_type data_feed exempted_states
                               batch_size delay fake_feed bucket tr1))))"

text \<open>
  \<^verbatim>\<open>run_live\<close> with its parameters in the order of the source, after the fuel and the
  world.
\<close>

definition run_live ::
  "nat \<Rightarrow> world \<Rightarrow> strategy \<Rightarrow> bucket \<Rightarrow> string \<Rightarrow> string list \<Rightarrow> string list \<Rightarrow> string list \<Rightarrow>
   int \<Rightarrow> rat \<Rightarrow> bool \<Rightarrow> trace \<times> unit outcome" where
  "run_live fuel w st symbol_bucket data_feed_type exempted_states exempted_days exempted_dates
     batch_size data_feed_delay fake_feed =
     (case live_body fuel w st symbol_bucket data_feed_type exempted_states exempted_days
             exempted_dates batch_size data_feed_delay fake_feed of
        (tr, None) \<Rightarrow> (tr, None)
      | (tr, Some (Inr u)) \<Rightarrow> (tr, Some (Inr u))
      | (tr, Some (Inl e)) \<Rightarrow>
          (case on_exception st Oops_live tr e of (tr1, r) \<Rightarrow> (tr1, Some r)))"

subsection \<open>Observations on a trace\<close>

text \<open>The windows the strategy received, call by call.\<close>

fun windows :: "trace \<Rightarrow> bar list list" where
  "windows [] = []"
| "windows (Strategy_backtest c d # tr) = d # windows tr"
| "windows (Strategy_live d # tr) = d # windows tr"
| "windows (_ # tr) = windows tr"

text \<open>The bars forwarded to the execution context, with their timestamps.\<close>

fun forwarded :: "trace \<Rightarrow> series" where
  "forwarded [] = []"
| "forwarded (Update_bar dt b # tr) = (dt, b) # forwarded tr"
| "forwarded (_ # tr) = forwarded tr"

text \<open>The arguments of the execution contexts that were built.\<close>

fun created :: "trace \<Rightarrow> (rat \<times> rat \<times> bool) list" where
  "created [] = []"
| "created (New_backtest cap com slip # tr) = (cap, com, slip) # created tr"
| "created (_ # tr) = created tr"

text \<open>The symbols a data source was called for, historical or live.\<close>

fun fetches :: "trace \<Rightarrow> symbol list" where
  "fetches [] = []"
| "fetches (Historical data symbol s e i # tr) = symbol # fetches tr"
| "fetches (Live_feed feed symbol fake # tr) = symbol # fetches tr"
| "fetches (_ # tr) = fetches tr"

fun sleeps :: "trace \<Rightarrow> rat list" where
  "sleeps [] = []"
| "sleeps (Sleep s # tr) = s # sleeps tr"
| "sleeps (_ # tr) = sleeps tr"

text \<open>How often the market state was read.\<close>

fun status_checks :: "trace \<Rightarrow> nat" where
  "status_checks [] = 0"
| "status_checks (Intraday_status # tr) = Suc (status_checks tr)"
| "status_checks (_ # tr) = status_checks tr"

text \<open>
  Whether some live call of the strategy in a trace that starts at time \<open>t\<close> happens
  at a time when the market state is one of \<open>exempted_states\<close>.
\<close>

fun invoked_while_exempted :: "world \<Rightarrow> string list \<Rightarrow> nat \<Rightarrow> trace \<Rightarrow> bool" where
  "invoked_while_exempted w exempted_states t [] = False"
| "invoked_while_exempted w exempted_states t (Strategy_live d # tr) =
     ((case intraday_status w t of Inl e \<Rightarrow> False | Inr state \<Rightarrow> state \<in> set exempted_states)
      \<or> invoked_while_exempted w exempted_states (Suc t) tr)"
| "invoked_while_exempted w exempted_states t (_ # tr) =
     invoked_while_exempted w exempted_states (Suc t) tr"

text \<open>The messages logged at critical level.\<close>

fun criticals :: "trace \<Rightarrow> message list" where
  "criticals [] = []"
| "criticals (Log Critical m # tr) = m # criticals tr"
| "criticals (_ # tr) = criticals tr"

text \<open>
  The exception with which the call that an event records, made at time \<open>t\<close>, ended,
  if it failed: a call of a data source, of the strategy, of
  \<^verbatim>\<open>crypto.exchange_attribute\<close>, of \<^verbatim>\<open>stocks.intraday_status\<close> or of
  \<^verbatim>\<open>time.sleep\<close>.
\<close>

fun failure_at :: "world \<Rightarrow> strategy \<Rightarrow> nat \<Rightarrow> event \<Rightarrow> exn option" where
  "failure_at w st t (Historical data symbol start end data_interval) =
     (case historical w data of
        None \<Rightarrow> None
      | Some src \<Rightarrow>
          (case src symbol start end data_interval of Inl e \<Rightarrow> Some e | Inr _ \<Rightarrow> None))"
| "failure_at w st t (Strategy_backtest c d) =
     (case on_backtest st t c d of Inl e \<Rightarrow> Some e | Inr _ \<Rightarrow> None)"
| "failure_at w st t (Exchange_attribute a) =
     (case exchange_attribute w a of Inl e \<Rightarrow> Some e | Inr _ \<Rightarrow> None)"
| "failure_at w st t Intraday_status =
     (case intraday_status w t of Inl e \<Rightarrow> Some e | Inr _ \<Rightarrow> None)"
| "failure_at w st t (Live_feed feed symbol fake_feed) =
     (case live w feed of
        None \<Rightarrow> None
      | Some data_feed \<Rightarrow>
          (case data_feed t symbol fake_feed of Inl e \<Rightarrow> Some e | Inr _ \<Rightarrow> None))"
| "failure_at w st t (Strategy_live d) = on_live st t d"
| "failure_at w st t (Sleep s) = sleep w t"
| "failure_at w st t _ = None"

text \<open>The exceptions of the calls that failed in a trace that starts at time \<open>t\<close>.\<close>

fun failed_calls :: "world \<Rightarrow> strategy \<Rightarrow> nat \<Rightarrow> trace \<Rightarrow> exn list" where
  "failed_calls w st t [] = []"
| "failed_calls w st t (ev # tr) =
     (case failure_at w st t ev of
        None \<Rightarrow> failed_calls w st (Suc t) tr
      | Some e \<Rightarrow> e # failed_calls w st (Suc t) tr)"

text \<open>A strategy whose backtest callback returns on every call.\<close>

definition never_raises :: "strategy \<Rightarrow> bool" where
  "never_raises st = (\<forall>t c d. \<exists>c'. on_backtest st t c d = Inr c')"

text \<open>
  A run in which nothing fails: the feed always answers with a bar, the strategy's live
  callback always returns and no sleep is interrupted.
\<close>

definition quiet :: "world \<Rightarrow> strategy \<Rightarrow> (nat \<Rightarrow> symbol \<Rightarrow> bool \<Rightarrow> exn + bar) \<Rightarrow> bool" where
  "quiet w st data_feed =
     ((\<forall>t symbol fake_feed. \<exists>b. data_feed t symbol fake_feed = Inr b)
      \<and> (\<forall>t d. on_live st t d = None)
      \<and> (\<forall>t. sleep w t = None))"

subsection \<open>Sample collaborators\<close>

text \<open>
  A strategy that does nothing, one that is interrupted at its second call, and one
  that fails at its second call.
\<close>

definition demo_strategy :: strategy where
  "demo_strategy =
     \<lparr>name = ''demo'', on_backtest = (\<lambda>t c d. Inr c), on_live = (\<lambda>t d. None)\<rparr>"

definition raising_strategy :: "exn \<Rightarrow> strategy" where
  "raising_strategy e =
     \<lparr>name = ''raising'',
      on_backtest = (\<lambda>t c d. if length d = 2 then Inl e else Inr c),
      on_live = (\<lambda>t d. if length d = 2 then Some e else None)\<rparr>"

text \<open>A historical source of three daily bars, and a live source whose bar is the time.\<close>

definition demo_history :: "symbol \<Rightarrow> string \<Rightarrow> string \<Rightarrow> string \<Rightarrow> exn + series" where
  "demo_history symbol start end data_interval = Inr [(1, [10]), (2, [11]), (3, [12])]"

definition demo_feed :: "nat \<Rightarrow> symbol \<Rightarrow> bool \<Rightarrow> exn + bar" where
  "demo_feed t symbol fake_feed = Inr [of_nat t]"

text \<open>
  A world in which nothing fails, the rate limit of the exchange is 2000 and the market
  state at time \<open>t\<close> is \<open>states t\<close>.
\<close>

definition demo_world :: "(nat \<Rightarrow> string) \<Rightarrow> world" where
  "demo_world states =
     \<lparr>historical = [''US_STOCKS_daily'' \<mapsto> demo_history],
      live = [''US_STOCKS_live_feed'' \<mapsto> demo_feed, ''CRYPTO_live_feed'' \<mapsto> demo_feed,
              ''CRYPTO_live_feed_level2'' \<mapsto> demo_feed],
      intraday_status = (\<lambda>t. Inr (states t)),
      exchange_attribute = (\<lambda>a. Inr 2000),
      sleep = (\<lambda>t. None)\<rparr>"

text \<open>A market that is open until time 6 and closed from then on.\<close>

definition closing :: "nat \<Rightarrow> string" where
  "closing t = (if t < 6 then ''open'' else ''closed'')"

section \<open>Properties\<close>

subsection \<open>Observations and concatenation\<close>

lemma windows_append: "windows (xs @ ys) = windows xs @ windows ys"
  by (induction xs rule: windows.induct) simp_all

lemma forwarded_append: "forwarded (xs @ ys) = forwarded xs @ forwarded ys"
  by (induction xs rule: forwarded.induct) simp_all

lemma created_append: "created (xs @ ys) = created xs @ created ys"
  by (induction xs rule: created.induct) simp_all

lemma fetches_append: "fetches (xs @ ys) = fetches xs @ fetches ys"
  by (induction xs rule: fetches.induct) simp_all

lemma sleeps_append: "sleeps (xs @ ys) = sleeps xs @ sleeps ys"
  by (induction xs rule: sleeps.induct) simp_all

lemma status_checks_append: "status_checks (xs @ ys) = status_checks xs + status_checks ys"
  by (induction xs rule: status_checks.induct) simp_all

subsection \<open>Sample runs\<close>

lemma demo_never_raises: "never_raises demo_strategy"
  by (simp add: never_raises_def demo_strategy_def)

lemma demo_backtest_run:
  "run_backtest (demo_world closing) demo_strategy [''AAA''] ''US_STOCKS_daily''
     ''2019-01-01'' ''2019-01-04'' ''1d'' ''close'' ''SPY'' 5000 0 False
   = ([Log Info (Starting_backtest ''demo'' ''2019-01-01'' ''2019-01-04'' 5000),
       Historical ''US_STOCKS_daily'' ''AAA'' ''2019-01-01'' ''2019-01-04'' ''1d'',
       New_backtest 100000 1 True,
       Update_bar 1 [10],
       Strategy_backtest \<lparr>capital = 100000, commission = 1, enable_slippage = True,
          ledger = [(1, [10])]\<rparr> [[10]],
       Update_bar 2 [11],
       Strategy_backtest \<lparr>capital = 100000, commission = 1, enable_slippage = True,
          ledger = [(1, [10]), (2, [11])]\<rparr> [[10], [11]],
       Update_bar 3 [12],
       Strategy_backtest \<lparr>capital = 100000, commission = 1, enable_slippage = True,
          ledger = [(1, [10]), (2, [11]), (3, [12])]\<rparr> [[10], [11], [12]],
       Print_trade_log \<lparr>capital = 100000, commission = 1, enable_slippage = True,
          ledger = [(1, [10]), (2, [11]), (3, [12])]\<rparr>],
      Inr ())"
  by (simp add: run_backtest_def backtest_body_def demo_world_def demo_strategy_def
      demo_history_def Buffer_def Backtest_def append_def update_bar_def DataFrame_def Let_def)

lemma empty_backtest_run:
  "run_backtest (demo_world closing) demo_strategy [] ''US_STOCKS_daily''
     ''2019-01-01'' ''2019-01-04'' ''1d'' ''close'' ''SPY'' 5000 0 False
   = ([Log Info (Starting_backtest ''demo'' ''2019-01-01'' ''2019-01-04'' 5000)], Inr ())"
  by (simp add: run_backtest_def backtest_body_def demo_world_def demo_strategy_def)

lemma lower_CLOSED: "lower ''CLOSED'' = ''closed''"
  by code_simp

lemma uppercase_live_run:
  "run_live 2 (demo_world (\<lambda>t. ''closed'')) demo_strategy (PyList [''AAA''])
     ''US_STOCKS_live_feed'' [''CLOSED''] [] [] 1000 1 False
   = ([Log Info (Entering_live ''demo''), Intraday_status,
       Live_feed ''US_STOCKS_live_feed'' ''AAA'' False, Strategy_live [[2]],
       Sleep (1 / 1000)], None)"
  by (simp add: run_live_def live_body_def recognized_def pacing_def crypto_feeds_def
      demo_world_def demo_strategy_def Buffer_def demo_feed_def Let_def append_def
      DataFrame_def len_def numeral_2_eq_2)

subsection \<open>The backtest loop\<close>

text \<open>
  As long as the buffer has room for the bars still to come, the loop over the bars
  forwards every bar, calls the strategy once per bar, and the window of each call is
  what the buffer held before followed by the bars up to the current one.
\<close>

lemma bars_loop_run:
  assumes "never_raises st"
    and "length (items batch) + length rest \<le> capacity batch"
  shows "\<exists>tr' c'. bars_loop st rest batch backtest tr = (tr', Inr c')
           \<and> windows tr' = windows tr @
                 map (\<lambda>i. items batch @ map snd (take (Suc i) rest)) [0..<length rest]
           \<and> forwarded tr' = forwarded tr @ rest"
  using assms(2)
proof (induction rest arbitrary: batch backtest tr)
  case Nil
  then show ?case by simp
next
  case (Cons p rest)
  obtain dt b where p: "p = (dt, b)" by (cases p)
  let ?batch1 = "append batch b"
  let ?tr2 = "tr @ [Update_bar dt b,
                    Strategy_backtest (update_bar backtest dt b) (items batch @ [b])]"
  from Cons.prems have room: "length (items batch) \<noteq> capacity batch" by simp
  then have items1: "items ?batch1 = items batch @ [b]"
    and cap1: "capacity ?batch1 = capacity batch"
    by (simp_all add: append_def)
  obtain c1 where c1:
    "on_backtest st (Suc (length tr)) (update_bar backtest dt b) (items batch @ [b]) = Inr c1"
    using assms(1) unfolding never_raises_def by blast
  have "length (items ?batch1) + length rest \<le> capacity ?batch1"
    using Cons.prems by (simp add: items1 cap1)
  from Cons.IH [OF this, of c1 ?tr2]
  obtain tr' c' where
    run: "bars_loop st rest ?batch1 c1 ?tr2 = (tr', Inr c')"
    and w: "windows tr' = windows ?tr2 @
              map (\<lambda>i. items ?batch1 @ map snd (take (Suc i) rest)) [0..<length rest]"
    and f: "forwarded tr' = forwarded ?tr2 @ rest"
    by blast
  have step: "bars_loop st (p # rest) batch backtest tr = (tr', Inr c')"
    using run c1 by (simp add: p Let_def DataFrame_def items1)
  have "map (\<lambda>i. items batch @ map snd (take (Suc i) (p # rest))) [0..<length (p # rest)]
        = (items batch @ [b]) #
          map (\<lambda>i. items ?batch1 @ map snd (take (Suc i) rest)) [0..<length rest]"
    by (simp add: p items1 map_upt_Suc del: upt_Suc)
  with w f step show ?case
    by (simp add: windows_append forwarded_append p)
qed

text \<open>
  C1. A backtest of one symbol over a series of \<open>N\<close> bars, with a strategy that does
  not raise: the strategy is called \<open>N\<close> times, the window of call \<open>i\<close> is the first
  \<open>i + 1\<close> bars of the series, the bars are forwarded to the context in the order of
  the series (so in strictly increasing timestamps when the source delivers them so),
  and when the series is not empty the run returns and the last window holds all \<open>N\<close>
  bars.
\<close>

theorem backtest_invokes_once_per_bar:
  assumes "historical w data = Some src"
    and "src symbol start end data_interval = Inr data_batch"
    and "never_raises st"
    and "run_backtest w st [symbol] data start end data_interval preferred_price_point
           preferred_benchmark initial_capital commission_arg slippage = (tr, r)"
  shows "length (windows tr) = length data_batch
       \<and> windows tr = map (\<lambda>i. map snd (take (Suc i) data_batch)) [0..<length data_batch]
       \<and> forwarded tr = data_batch
       \<and> (sorted_wrt (<) (map fst data_batch) \<longrightarrow> sorted_wrt (<) (map fst (forwarded tr)))
       \<and> (data_batch \<noteq> [] \<longrightarrow> r = Inr () \<and> last (windows tr) = map snd data_batch)"
proof (cases "data_batch = []")
  case True
  then show ?thesis
    using assms(1,2,4)
    by (auto simp: run_backtest_def backtest_body_def Buffer_def on_exception_def)
next
  case False
  define batch where "batch = \<lparr>capacity = length data_batch, items = []\<rparr>"
  define tr2 where "tr2 = [Log Info (Starting_backtest (name st) start end initial_capital),
     Historical data symbol start end data_interval, New_backtest 100000 1 True]"
  have buf: "Buffer (int (length data_batch)) = Inr batch"
    using False by (simp add: Buffer_def batch_def)
  have "length (items batch) + length data_batch \<le> capacity batch"
    by (simp add: batch_def)
  from bars_loop_run [OF assms(3) this, of "Backtest 100000 1 True" tr2]
  obtain tr' c' where
    run: "bars_loop st data_batch batch (Backtest 100000 1 True) tr2 = (tr', Inr c')"
    and w: "windows tr' = map (\<lambda>i. map snd (take (Suc i) data_batch)) [0..<length data_batch]"
    and f: "forwarded tr' = data_batch"
    by (auto simp: tr2_def batch_def)
  have all: "tr = tr' @ [Print_trade_log c'] \<and> r = Inr ()"
    using assms(1,2,4) buf run
    by (auto simp: run_backtest_def backtest_body_def Let_def tr2_def)
  have "last (map (\<lambda>i. map snd (take (Suc i) data_batch)) [0..<length data_batch])
        = map snd data_batch"
    using False by (simp add: last_map)
  with all w f show ?thesis
    by (simp add: windows_append forwarded_append)
qed

theorem backtest_invokes_once_per_bar_witness:
  "historical (demo_world closing) ''US_STOCKS_daily'' = Some demo_history
   \<and> demo_history ''AAA'' ''2019-01-01'' ''2019-01-04'' ''1d''
       = Inr [(1, [10]), (2, [11]), (3, [12])]
   \<and> never_raises demo_strategy
   \<and> windows (fst (run_backtest (demo_world closing) demo_strategy [''AAA'']
        ''US_STOCKS_daily'' ''2019-01-01'' ''2019-01-04'' ''1d'' ''close'' ''SPY'' 5000 0 False))
       = [[[10]], [[10], [11]], [[10], [11], [12]]]
   \<and> map fst (forwarded (fst (run_backtest (demo_world closing) demo_strategy [''AAA'']
        ''US_STOCKS_daily'' ''2019-01-01'' ''2019-01-04'' ''1d'' ''close'' ''SPY'' 5000 0 False)))
       = [1, 2, 3]
   \<and> snd (run_backtest (demo_world closing) demo_strategy [''AAA'']
        ''US_STOCKS_daily'' ''2019-01-01'' ''2019-01-04'' ''1d'' ''close'' ''SPY'' 5000 0 False)
       = Inr ()"
proof -
  have h1: "historical (demo_world closing) ''US_STOCKS_daily'' = Some demo_history"
    by (simp add: demo_world_def)
  have h2: "demo_history ''AAA'' ''2019-01-01'' ''2019-01-04'' ''1d''
       = Inr [(1, [10]), (2, [11]), (3, [12])]"
    by (simp add: demo_history_def)
  obtain tr r where run:
    "run_backtest (demo_world closing) demo_strategy [''AAA''] ''US_STOCKS_daily''
       ''2019-01-01'' ''2019-01-04'' ''1d'' ''close'' ''SPY'' 5000 0 False = (tr, r)"
    by (cases "run_backtest (demo_world closing) demo_strategy [''AAA''] ''US_STOCKS_daily''
       ''2019-01-01'' ''2019-01-04'' ''1d'' ''close'' ''SPY'' 5000 0 False")
  from backtest_invokes_once_per_bar [OF h1 h2 demo_never_raises run]
  have "windows tr = [[[10]], [[10], [11]], [[10], [11], [12]]]"
    and "forwarded tr = [(1, [10]), (2, [11]), (3, [12])]" and "r = Inr ()"
    by (simp_all add: upt_rec)
  with h1 h2 demo_never_raises run show ?thesis by simp
qed

text \<open>
  C7. The execution context of a backtest does not come from the configuration of the
  run: called with an initial capital of 5000, a commission of 0 and slippage off, the
  run builds its one context with capital 100000, commission 1 and slippage on, the
  literals of line 49.
\<close>

theorem context_built_from_literals:
  "created (fst (run_backtest (demo_world closing) demo_strategy [''AAA''] ''US_STOCKS_daily''
     ''2019-01-01'' ''2019-01-04'' ''1d'' ''close'' ''SPY'' 5000 0 False))
   = [(100000, 1, True)]"
  by (simp add: demo_backtest_run)

subsection \<open>The live loops\<close>

text \<open>With an empty bucket the polling loop does nothing, for ever.\<close>

lemma polling_loop_empty_bucket:
  "len batch < batch_size \<Longrightarrow>
   polling_loop fuel w st feed data_feed batch_size delay fake_feed [] batch tr = (tr, None)"
  by (induction fuel) simp_all

lemma append_length: "length (items (append batch b)) \<le> Suc (length (items batch))"
  by (simp add: append_def)

lemma evict_keeps_below:
  assumes "len batch < batch_size"
    and "(if len (append batch b) = batch_size then popleft (append batch b)
          else Inr (append batch b)) = Inr batch2"
  shows "len batch2 < batch_size"
proof (cases "len (append batch b) = batch_size")
  case True
  with assms(2) have "popleft (append batch b) = Inr batch2" by simp
  then have "length (items batch2) < length (items (append batch b))"
    by (auto simp: popleft_def split: list.splits)
  with True show ?thesis by (simp add: len_def)
next
  case False
  with assms(2) have "batch2 = append batch b" by simp
  moreover have "len (append batch b) \<le> len batch + 1"
    using append_length [of batch b] by (simp add: len_def)
  ultimately show ?thesis using False assms(1) by simp
qed

lemma poll_symbols_trace:
  assumes "len batch < batch_size"
  shows "\<exists>new r. poll_symbols w st feed data_feed batch_size delay fake_feed bucket batch tr
                    = (tr @ new, r)
           \<and> status_checks new = 0
           \<and> set (sleeps new) \<subseteq> {delay / 1000}
           \<and> (\<forall>d \<in> set (windows new). int (length d) \<le> batch_size)
           \<and> (\<forall>batch'. r = Inr batch' \<longrightarrow> len batch' < batch_size)
           \<and> (bucket = [] \<longrightarrow> new = [])"
  using assms
proof (induction bucket arbitrary: batch tr)
  case Nil
  then show ?case by simp
next
  case (Cons symbol rest)
  let ?tr1 = "tr @ [Live_feed feed symbol fake_feed]"
  show ?case
  proof (cases "data_feed (length tr) symbol fake_feed")
    case (Inl e)
    then show ?thesis by (simp add: Let_def)
  next
    case (Inr b)
    let ?batch1 = "append batch b"
    let ?tr2 = "?tr1 @ [Strategy_live (DataFrame ?batch1)]"
    have win: "int (length (DataFrame ?batch1)) \<le> batch_size"
      using append_length [of batch b] Cons.prems by (simp add: DataFrame_def len_def)
    show ?thesis
    proof (cases "on_live st (length ?tr1) (DataFrame ?batch1)")
      case (Some e)
      with Inr win show ?thesis by (simp add: Let_def)
    next
      case None
      show ?thesis
      proof (cases "if len ?batch1 = batch_size then popleft ?batch1 else Inr ?batch1")
        case (Inl e)
        with Inr None win show ?thesis by (simp add: Let_def)
      next
        case evict: (Inr batch2)
        have below: "len batch2 < batch_size"
          using evict_keeps_below [OF Cons.prems evict] .
        let ?tr3 = "?tr2 @ [Sleep (delay / 1000)]"
        show ?thesis
        proof (cases "sleep w (length ?tr2)")
          case (Some e)
          with Inr None evict win show ?thesis by (simp add: Let_def)
        next
          case slept: None
          from Cons.IH [OF below, of ?tr3]
          obtain new r where
            rest: "poll_symbols w st feed data_feed batch_size delay fake_feed rest batch2 ?tr3
                    = (?tr3 @ new, r)"
            and props: "status_checks new = 0" "set (sleeps new) \<subseteq> {delay / 1000}"
              "\<forall>d \<in> set (windows new). int (length d) \<le> batch_size"
              "\<forall>batch'. r = Inr batch' \<longrightarrow> len batch' < batch_size"
            by blast
          have "poll_symbols w st feed data_feed batch_size delay fake_feed (symbol # rest) batch tr
                = (tr @ ([Live_feed feed symbol fake_feed, Strategy_live (DataFrame ?batch1),
                          Sleep (delay / 1000)] @ new), r)"
            using Inr None evict slept rest by (simp add: Let_def)
          moreover have "status_checks ([Live_feed feed symbol fake_feed,
                Strategy_live (DataFrame ?batch1), Sleep (delay / 1000)] @ new) = 0"
            using props(1) by simp
          moreover have "set (sleeps ([Live_feed feed symbol fake_feed,
                Strategy_live (DataFrame ?batch1), Sleep (delay / 1000)] @ new)) \<subseteq> {delay / 1000}"
            using props(2) by simp
          moreover have "\<forall>d \<in> set (windows ([Live_feed feed symbol fake_feed,
                Strategy_live (DataFrame ?batch1), Sleep (delay / 1000)] @ new)).
                  int (length d) \<le> batch_size"
            using props(3) win by simp
          ultimately show ?thesis using props(4) by blast
        qed
      qed
    qed
  qed
qed


lemma polling_loop_trace:
  assumes "len batch < batch_size"
  shows "\<exists>new r. polling_loop fuel w st feed data_feed batch_size delay fake_feed bucket batch tr
                    = (tr @ new, r)
           \<and> status_checks new = 0
           \<and> set (sleeps new) \<subseteq> {delay / 1000}
           \<and> (\<forall>d \<in> set (windows new). int (length d) \<le> batch_size)
           \<and> (\<forall>batch'. r \<noteq> Some (Inr batch'))
           \<and> (bucket = [] \<longrightarrow> new = [])"
  using assms
proof (induction fuel arbitrary: batch tr)
  case 0
  then show ?case by simp
next
  case (Suc fuel)
  from poll_symbols_trace [OF Suc.prems, of w st feed data_feed delay fake_feed bucket tr]
  obtain new1 r1 where
    polled: "poll_symbols w st feed data_feed batch_size delay fake_feed bucket batch tr
              = (tr @ new1, r1)"
    and p1: "status_checks new1 = 0" "set (sleeps new1) \<subseteq> {delay / 1000}"
      "\<forall>d \<in> set (windows new1). int (length d) \<le> batch_size"
      "\<forall>batch'. r1 = Inr batch' \<longrightarrow> len batch' < batch_size"
      "bucket = [] \<longrightarrow> new1 = []"
    by blast
  show ?case
  proof (cases r1)
    case (Inl e)
    with polled Suc.prems p1 show ?thesis by simp
  next
    case (Inr batch1)
    with p1(4) have "len batch1 < batch_size" by simp
    from Suc.IH [OF this, of "tr @ new1"]
    obtain new2 r2 where
      again: "polling_loop fuel w st feed data_feed batch_size delay fake_feed bucket batch1
                (tr @ new1) = ((tr @ new1) @ new2, r2)"
      and p2: "status_checks new2 = 0" "set (sleeps new2) \<subseteq> {delay / 1000}"
        "\<forall>d \<in> set (windows new2). int (length d) \<le> batch_size"
        "\<forall>batch'. r2 \<noteq> Some (Inr batch')"
        "bucket = [] \<longrightarrow> new2 = []"
      by blast
    have "polling_loop (Suc fuel) w st feed data_feed batch_size delay fake_feed bucket batch tr
            = (tr @ (new1 @ new2), r2)"
      using polled Inr again Suc.prems by simp
    moreover have "status_checks (new1 @ new2) = 0"
      using p1(1) p2(1) by (simp add: status_checks_append)
    moreover have "set (sleeps (new1 @ new2)) \<subseteq> {delay / 1000}"
      using p1(2) p2(2) by (simp add: sleeps_append)
    moreover have "\<forall>d \<in> set (windows (new1 @ new2)). int (length d) \<le> batch_size"
      using p1(3) p2(3) by (auto simp: windows_append)
    moreover have "bucket = [] \<longrightarrow> new1 @ new2 = []"
      using p1(5) p2(5) by simp
    ultimately show ?thesis using p2(4) by blast
  qed
qed

lemma fresh_buffer: "Buffer batch_size = Inr batch \<Longrightarrow> len batch < batch_size"
  by (auto simp: Buffer_def len_def split: if_splits)

lemma market_loop_trace:
  "\<exists>new r. market_loop fuel w st feed data_feed exempted_states batch_size delay fake_feed
              bucket tr = (tr @ new, r)
     \<and> status_checks new \<le> 1
     \<and> set (sleeps new) \<subseteq> {delay / 1000}
     \<and> (\<forall>d \<in> set (windows new). int (length d) \<le> batch_size)
     \<and> (r = Some (Inr ()) \<longrightarrow> new = [Intraday_status]
           \<and> (\<exists>s. intraday_status w (length tr) = Inr s \<and> s \<in> set exempted_states))
     \<and> (windows new \<noteq> [] \<longrightarrow> hd new = Intraday_status
           \<and> (\<exists>s. intraday_status w (length tr) = Inr s \<and> s \<notin> set exempted_states))
     \<and> (bucket = [] \<longrightarrow> new = [] \<or> new = [Intraday_status])"
proof (cases fuel)
  case 0
  then show ?thesis by simp
next
  case (Suc n)
  show ?thesis
  proof (cases "intraday_status w (length tr)")
    case (Inl e)
    with Suc show ?thesis by (simp add: Let_def)
  next
    case (Inr state)
    show ?thesis
    proof (cases "state \<in> set exempted_states")
      case True
      with Suc Inr show ?thesis by (simp add: Let_def)
    next
      case False
      show ?thesis
      proof (cases "Buffer batch_size")
        case (Inl e)
        with Suc Inr False show ?thesis by (simp add: Let_def)
      next
        case buf: (Inr batch)
        from polling_loop_trace [OF fresh_buffer [OF buf], of n w st feed data_feed delay
            fake_feed bucket "tr @ [Intraday_status]"]
        obtain new r where
          polled: "polling_loop n w st feed data_feed batch_size delay fake_feed bucket batch
                    (tr @ [Intraday_status]) = ((tr @ [Intraday_status]) @ new, r)"
          and p: "status_checks new = 0" "set (sleeps new) \<subseteq> {delay / 1000}"
            "\<forall>d \<in> set (windows new). int (length d) \<le> batch_size"
            "\<forall>batch'. r \<noteq> Some (Inr batch')"
            "bucket = [] \<longrightarrow> new = []"
          by blast
        from p(4) consider "r = None" | e where "r = Some (Inl e)"
        proof (cases r)
          case None
          then show ?thesis using that by simp
        next
          case (Some a)
          with p(4) that show ?thesis by (cases a) simp_all
        qed
        then have run: "market_loop fuel w st feed data_feed exempted_states batch_size delay
            fake_feed bucket tr = (tr @ (Intraday_status # new), map_option (map_sum id (\<lambda>_. ())) r)
            \<and> map_option (map_sum id (\<lambda>_. ())) r \<noteq> Some (Inr ())"
          using Suc Inr False buf polled by cases (simp_all add: Let_def)
        moreover have "status_checks (Intraday_status # new) \<le> 1"
          using p(1) by simp
        moreover have "set (sleeps (Intraday_status # new)) \<subseteq> {delay / 1000}"
          using p(2) by simp
        moreover have "\<forall>d \<in> set (windows (Intraday_status # new)). int (length d) \<le> batch_size"
          using p(3) by simp
        moreover have "hd (Intraday_status # new) = Intraday_status
           \<and> (\<exists>s. intraday_status w (length tr) = Inr s \<and> s \<notin> set exempted_states)"
          using Inr False by simp
        moreover have "bucket = [] \<longrightarrow> Intraday_status # new = [Intraday_status]"
          using p(5) by simp
        ultimately show ?thesis by blast
      qed
    qed
  qed
qed


lemma pacing_trace:
  "\<exists>new. fst (pacing w data_feed_type data_feed_delay tr) = tr @ new
     \<and> windows new = [] \<and> sleeps new = [] \<and> status_checks new = 0 \<and> fetches new = []"
  by (simp add: pacing_def)

lemma pacing_delay:
  "pacing w data_feed_type data_feed_delay tr = (tr1, Inr delay) \<Longrightarrow>
   (if data_feed_type \<in> set crypto_feeds then exchange_attribute w ''rateLimit'' = Inr delay
    else delay = data_feed_delay)"
  by (auto simp: pacing_def split: if_splits)

text \<open>The try block either fails before the loop, or is the market loop.\<close>

lemma live_body_cases:
  assumes "live_body fuel w st symbol_bucket data_feed_type exempted_states exempted_days
             exempted_dates batch_size data_feed_delay fake_feed = (tr, r)"
  obtains (early) e where "r = Some (Inl e)" "windows tr = []" "sleeps tr = []"
      "status_checks tr = 0" "fetches tr = []"
  | (loop) bucket tr1 delay data_feed where
      "check_bucket symbol_bucket = Inr bucket"
      "data_feed_type \<in> set recognized"
      "pacing w data_feed_type data_feed_delay [Log Info (Entering_live (name st))]
         = (tr1, Inr delay)"
      "windows tr1 = []" "sleeps tr1 = []" "status_checks tr1 = 0" "fetches tr1 = []"
      "live w data_feed_type = Some data_feed"
      "market_loop fuel w st data_feed_type data_feed exempted_states batch_size delay
         fake_feed bucket tr1 = (tr, r)"
proof (cases "check_bucket symbol_bucket")
  case (Inl e)
  with assms early show ?thesis by (auto simp: live_body_def)
next
  case bucket: (Inr bucket)
  show ?thesis
  proof (cases "data_feed_type \<in> set recognized")
    case False
    with assms bucket early show ?thesis by (auto simp: live_body_def)
  next
    case True
    obtain tr1 p where pac:
      "pacing w data_feed_type data_feed_delay [Log Info (Entering_live (name st))] = (tr1, p)"
      by (cases "pacing w data_feed_type data_feed_delay [Log Info (Entering_live (name st))]")
    from pacing_trace [of w data_feed_type data_feed_delay "[Log Info (Entering_live (name st))]"]
    have obs: "windows tr1 = []" "sleeps tr1 = []" "status_checks tr1 = 0" "fetches tr1 = []"
      using pac by auto
    show ?thesis
    proof (cases p)
      case (Inl e)
      with assms bucket True pac obs early show ?thesis by (auto simp: live_body_def)
    next
      case delay: (Inr delay)
      show ?thesis
      proof (cases "live w data_feed_type")
        case None
        with assms bucket True pac delay obs early show ?thesis by (auto simp: live_body_def)
      next
        case (Some data_feed)
        with assms bucket True pac delay have
          "market_loop fuel w st data_feed_type data_feed exempted_states batch_size delay
             fake_feed bucket tr1 = (tr, r)"
          by (simp add: live_body_def)
        with bucket True pac delay obs Some loop show ?thesis by blast
      qed
    qed
  qed
qed

text \<open>What the failure boundary adds to the trace of the try block.\<close>

lemma run_live_trace:
  "\<exists>extra. fst (run_live fuel w st symbol_bucket data_feed_type exempted_states exempted_days
             exempted_dates batch_size data_feed_delay fake_feed)
        = fst (live_body fuel w st symbol_bucket data_feed_type exempted_states exempted_days
             exempted_dates batch_size data_feed_delay fake_feed) @ extra
     \<and> windows extra = [] \<and> sleeps extra = [] \<and> status_checks extra = 0 \<and> fetches extra = []"
  by (auto simp: run_live_def on_exception_def split: prod.splits option.splits sum.splits)

subsection \<open>Before the loop\<close>

text \<open>
  A live run whose feed identifier is none of the three of line 128 fails before the
  loop: with a list as bucket the run logs its start, logs the failure and raises
  \<open>InvalidDataFeedType\<close>; whatever the bucket is, the run fails without reading the
  market state, without polling a feed and without calling the strategy.
\<close>

lemma unrecognized_feed_fails:
  assumes "data_feed_type \<noteq> ''CRYPTO_live_feed''"
    and "data_feed_type \<noteq> ''US_STOCKS_live_feed''"
    and "data_feed_type \<noteq> ''CRYPTO_live_feed_level2''"
  shows "run_live fuel w st (PyList symbols) data_feed_type exempted_states exempted_days
           exempted_dates batch_size data_feed_delay fake_feed
         = ([Log Info (Entering_live (name st)), Log Critical (Exiting (name st)),
             Log Error Oops_live], Some (Inl InvalidDataFeedType))
       \<and> windows (fst (run_live fuel w st symbol_bucket data_feed_type exempted_states
             exempted_days exempted_dates batch_size data_feed_delay fake_feed)) = []
       \<and> status_checks (fst (run_live fuel w st symbol_bucket data_feed_type exempted_states
             exempted_days exempted_dates batch_size data_feed_delay fake_feed)) = 0
       \<and> fetches (fst (run_live fuel w st symbol_bucket data_feed_type exempted_states
             exempted_days exempted_dates batch_size data_feed_delay fake_feed)) = []
       \<and> (\<exists>e. snd (run_live fuel w st symbol_bucket data_feed_type exempted_states
             exempted_days exempted_dates batch_size data_feed_delay fake_feed) = Some (Inl e))"
proof -
  have "data_feed_type \<notin> set recognized"
    using assms by (simp add: recognized_def)
  then show ?thesis
    by (cases symbol_bucket) (simp_all add: run_live_def live_body_def on_exception_def)
qed

text \<open>
  C8. With a numpy array as bucket, which lines 124 to 127 mean to accept, a run with
  the feed identifier \<open>unknown_feed\<close> does not fail with \<open>InvalidDataFeedType\<close>:
  line 126 names \<^verbatim>\<open>numpy\<close>, which the module does not bind, and the run fails with
  \<open>NameError\<close> before the feed identifier is looked at. With the same symbols in a
  list the run fails with \<open>InvalidDataFeedType\<close>.
\<close>

theorem unrecognized_feed_with_array_bucket:
  "run_live 5 (demo_world closing) demo_strategy (NdArray [''AAA'']) ''unknown_feed''
     [''closed''] [] [] 1000 1 False
   = ([Log Info (Entering_live ''demo''), Log Critical (Exiting ''demo''),
       Log Error Oops_live], Some (Inl (NameError ''numpy'')))
   \<and> run_live 5 (demo_world closing) demo_strategy (PyList [''AAA'']) ''unknown_feed''
     [''closed''] [] [] 1000 1 False
   = ([Log Info (Entering_live ''demo''), Log Critical (Exiting ''demo''),
       Log Error Oops_live], Some (Inl InvalidDataFeedType))"
proof -
  have "run_live 5 (demo_world closing) demo_strategy (NdArray [''AAA'']) ''unknown_feed''
     [''closed''] [] [] 1000 1 False
   = ([Log Info (Entering_live ''demo''), Log Critical (Exiting ''demo''),
       Log Error Oops_live], Some (Inl (NameError ''numpy'')))"
    by (simp add: run_live_def live_body_def on_exception_def demo_strategy_def)
  moreover have "run_live 5 (demo_world closing) demo_strategy (PyList [''AAA''])
     ''unknown_feed'' [''closed''] [] [] 1000 1 False
   = ([Log Info (Entering_live ''demo''), Log Critical (Exiting ''demo''),
       Log Error Oops_live], Some (Inl InvalidDataFeedType))"
    using unrecognized_feed_fails [of "''unknown_feed''" 5 "demo_world closing" demo_strategy
        "[''AAA'']" "[''closed'']" "[]" "[]" 1000 1 False]
    by (simp add: demo_strategy_def)
  ultimately show ?thesis by simp
qed

subsection \<open>Pacing\<close>

text \<open>
  C9. Every sleep of a live run lasts the pacing delay: for the two crypto feeds the
  rate limit the exchange answers with, whatever delay the caller passed, and the
  caller's delay for every other feed (in both cases divided by 1000).
\<close>

theorem sleeps_use_the_pacing_delay:
  assumes "run_live fuel w st symbol_bucket data_feed_type exempted_states exempted_days
             exempted_dates batch_size data_feed_delay fake_feed = (tr, r)"
  shows "(data_feed_type \<in> {''CRYPTO_live_feed'', ''CRYPTO_live_feed_level2''} \<longrightarrow>
            exchange_attribute w ''rateLimit'' = Inr rate \<longrightarrow>
            set (sleeps tr) \<subseteq> {rate / 1000})
       \<and> (data_feed_type \<notin> {''CRYPTO_live_feed'', ''CRYPTO_live_feed_level2''} \<longrightarrow>
            set (sleeps tr) \<subseteq> {data_feed_delay / 1000})"
proof -
  obtain tr0 r0 where body:
    "live_body fuel w st symbol_bucket data_feed_type exempted_states exempted_days
       exempted_dates batch_size data_feed_delay fake_feed = (tr0, r0)"
    by (cases "live_body fuel w st symbol_bucket data_feed_type exempted_states exempted_days
       exempted_dates batch_size data_feed_delay fake_feed")
  from run_live_trace [of fuel w st symbol_bucket data_feed_type exempted_states exempted_days
       exempted_dates batch_size data_feed_delay fake_feed]
  have tr: "sleeps tr = sleeps tr0"
    using assms body by (auto simp: sleeps_append)
  from body show ?thesis
  proof (cases rule: live_body_cases)
    case (early e)
    with tr show ?thesis by simp
  next
    case (loop bucket tr1 delay data_feed)
    from market_loop_trace [of fuel w st data_feed_type data_feed exempted_states batch_size
        delay fake_feed bucket tr1]
    obtain new where "tr0 = tr1 @ new" "set (sleeps new) \<subseteq> {delay / 1000}"
      using loop(9) by auto
    with tr loop(5) have "set (sleeps tr) \<subseteq> {delay / 1000}"
      by (simp add: sleeps_append)
    with pacing_delay [OF loop(3)] show ?thesis
      by (auto simp: crypto_feeds_def split: if_splits)
  qed
qed


text \<open>Sample live runs.\<close>

lemma crypto_live_run:
  "run_live 2 (demo_world closing) demo_strategy (PyList [''BTC/USD''])
     ''CRYPTO_live_feed'' [''closed''] [] [] 1000 1 False
   = ([Log Info (Entering_live ''demo''), Exchange_attribute ''rateLimit'', Intraday_status,
       Live_feed ''CRYPTO_live_feed'' ''BTC/USD'' False, Strategy_live [[3]], Sleep 2], None)"
  by (simp add: run_live_def live_body_def recognized_def pacing_def crypto_feeds_def
      demo_world_def demo_strategy_def Buffer_def demo_feed_def Let_def append_def
      DataFrame_def len_def closing_def numeral_2_eq_2)

lemma closing_live_run:
  "run_live 3 (demo_world closing) demo_strategy (PyList [''AAA''])
     ''US_STOCKS_live_feed'' [''closed''] [''monday''] [''2019-01-01''] 1000 1 False
   = ([Log Info (Entering_live ''demo''), Intraday_status,
       Live_feed ''US_STOCKS_live_feed'' ''AAA'' False, Strategy_live [[2]], Sleep (1 / 1000),
       Live_feed ''US_STOCKS_live_feed'' ''AAA'' False, Strategy_live [[2], [5]],
       Sleep (1 / 1000)], None)"
  by (simp add: run_live_def live_body_def recognized_def pacing_def crypto_feeds_def
      demo_world_def demo_strategy_def Buffer_def demo_feed_def Let_def append_def
      DataFrame_def len_def closing_def numeral_3_eq_3)

theorem sleeps_use_the_pacing_delay_witness:
  "''CRYPTO_live_feed'' \<in> {''CRYPTO_live_feed'', ''CRYPTO_live_feed_level2''}
   \<and> exchange_attribute (demo_world closing) ''rateLimit'' = Inr 2000
   \<and> sleeps (fst (run_live 2 (demo_world closing) demo_strategy (PyList [''BTC/USD''])
        ''CRYPTO_live_feed'' [''closed''] [] [] 1000 1 False)) = [2]
   \<and> set (sleeps (fst (run_live 2 (demo_world closing) demo_strategy (PyList [''BTC/USD''])
        ''CRYPTO_live_feed'' [''closed''] [] [] 1000 1 False))) \<subseteq> {2000 / 1000}
   \<and> ''US_STOCKS_live_feed'' \<notin> {''CRYPTO_live_feed'', ''CRYPTO_live_feed_level2''}
   \<and> sleeps (fst (run_live 3 (demo_world closing) demo_strategy (PyList [''AAA''])
        ''US_STOCKS_live_feed'' [''closed''] [''monday''] [''2019-01-01''] 1000 1 False))
      = [1 / 1000, 1 / 1000]"
proof -
  have rate: "exchange_attribute (demo_world closing) ''rateLimit'' = Inr 2000"
    by (simp add: demo_world_def)
  from sleeps_use_the_pacing_delay [OF crypto_live_run, of 2000] rate
  have "set (sleeps [Log Info (Entering_live ''demo''), Exchange_attribute ''rateLimit'',
      Intraday_status, Live_feed ''CRYPTO_live_feed'' ''BTC/USD'' False, Strategy_live [[3]],
      Sleep 2]) \<subseteq> {2000 / 1000}"
    by blast
  then show ?thesis
    using rate by (simp add: crypto_live_run closing_live_run)
qed

subsection \<open>Exemptions\<close>

text \<open>
  C3. The market state is tested at line 136, but only once: the market is open when
  the run starts and closed from time 6 on, \<open>closed\<close> is exempted, and the strategy is
  still called at time 6, in an exempted state. The exempted weekday and date passed
  with the call play no part.
\<close>

theorem strategy_invoked_in_exempted_state:
  "invoked_while_exempted (demo_world closing) [''closed''] 0
     (fst (run_live 3 (demo_world closing) demo_strategy (PyList [''AAA''])
        ''US_STOCKS_live_feed'' [''closed''] [''monday''] [''2019-01-01''] 1000 1 False))"
  unfolding closing_live_run by (simp add: demo_world_def closing_def)

subsection \<open>The polling loop does not end\<close>

text \<open>After an append the buffer is not empty, so the eviction cannot fail.\<close>

lemma popleft_append: "\<exists>batch2. popleft (append batch b) = Inr batch2"
  by (cases "tl (items batch) @ [b]"; cases "items batch @ [b]")
     (simp_all add: popleft_def append_def)

lemma poll_symbols_quiet:
  assumes "quiet w st data_feed" and "len batch < batch_size"
  shows "\<exists>new batch'. poll_symbols w st feed data_feed batch_size delay fake_feed bucket batch tr
                    = (tr @ new, Inr batch')
           \<and> length (windows new) = length bucket \<and> len batch' < batch_size"
  using assms(2)
proof (induction bucket arbitrary: batch tr)
  case Nil
  then show ?case by simp
next
  case (Cons symbol rest)
  obtain b where fed: "data_feed (length tr) symbol fake_feed = Inr b"
    using assms(1) unfolding quiet_def by blast
  have called: "\<And>t d. on_live st t d = None" and slept: "\<And>t. sleep w t = None"
    using assms(1) unfolding quiet_def by simp_all
  obtain batch2 where evict:
    "(if len (append batch b) = batch_size then popleft (append batch b)
      else Inr (append batch b)) = Inr batch2"
    using popleft_append [of batch b] by (cases "len (append batch b) = batch_size") auto
  let ?step = "[Live_feed feed symbol fake_feed, Strategy_live (DataFrame (append batch b)),
               Sleep (delay / 1000)]"
  from Cons.IH [OF evict_keeps_below [OF Cons.prems evict], of "tr @ ?step"]
  obtain new batch' where
    rest: "poll_symbols w st feed data_feed batch_size delay fake_feed rest batch2 (tr @ ?step)
            = ((tr @ ?step) @ new, Inr batch')"
    and props: "length (windows new) = length rest" "len batch' < batch_size"
    by blast
  have "poll_symbols w st feed data_feed batch_size delay fake_feed (symbol # rest) batch tr
          = (tr @ (?step @ new), Inr batch')"
    using fed called slept evict rest by (simp add: Let_def)
  moreover have "length (windows (?step @ new)) = length (symbol # rest)"
    using props(1) by simp
  ultimately show ?case using props(2) by blast
qed

lemma polling_loop_quiet:
  assumes "quiet w st data_feed" and "len batch < batch_size"
  shows "\<exists>new. polling_loop fuel w st feed data_feed batch_size delay fake_feed bucket batch tr
                    = (tr @ new, None)
           \<and> length (windows new) = fuel * length bucket"
  using assms(2)
proof (induction fuel arbitrary: batch tr)
  case 0
  then show ?case by simp
next
  case (Suc fuel)
  from poll_symbols_quiet [OF assms(1) Suc.prems, of feed delay fake_feed bucket tr]
  obtain new1 batch1 where
    polled: "poll_symbols w st feed data_feed batch_size delay fake_feed bucket batch tr
              = (tr @ new1, Inr batch1)"
    and p1: "length (windows new1) = length bucket" "len batch1 < batch_size"
    by blast
  from Suc.IH [OF p1(2), of "tr @ new1"]
  obtain new2 where
    again: "polling_loop fuel w st feed data_feed batch_size delay fake_feed bucket batch1
              (tr @ new1) = ((tr @ new1) @ new2, None)"
    and p2: "length (windows new2) = fuel * length bucket"
    by blast
  have "polling_loop (Suc fuel) w st feed data_feed batch_size delay fake_feed bucket batch tr
          = (tr @ (new1 @ new2), None)"
    using polled again Suc.prems by simp
  moreover have "length (windows (new1 @ new2)) = Suc fuel * length bucket"
    using p1(1) p2 by (simp add: windows_append)
  ultimately show ?case by blast
qed

text \<open>
  Once the market loop has found the state outside the exempted ones, a run in which
  nothing fails goes on polling whatever the market state becomes: with \<open>fuel + 1\<close>
  it has made \<open>fuel\<close> rounds over the bucket and has not ended.
\<close>

lemma market_loop_quiet:
  assumes "quiet w st data_feed" and "1 \<le> batch_size"
    and "intraday_status w (length tr) = Inr state" and "state \<notin> set exempted_states"
  shows "\<exists>new. market_loop (Suc fuel) w st feed data_feed exempted_states batch_size delay
                  fake_feed bucket tr = (tr @ new, None)
           \<and> length (windows new) = fuel * length bucket"
proof -
  obtain batch where buf: "Buffer batch_size = Inr batch"
    using assms(2) by (simp add: Buffer_def)
  from polling_loop_quiet [OF assms(1) fresh_buffer [OF buf], of fuel feed delay fake_feed
      bucket "tr @ [Intraday_status]"]
  obtain new where
    polled: "polling_loop fuel w st feed data_feed batch_size delay fake_feed bucket batch
              (tr @ [Intraday_status]) = ((tr @ [Intraday_status]) @ new, None)"
    and p: "length (windows new) = fuel * length bucket"
    by blast
  have "market_loop (Suc fuel) w st feed data_feed exempted_states batch_size delay
          fake_feed bucket tr = (tr @ (Intraday_status # new), None)"
    using assms(3,4) buf polled by (simp add: Let_def)
  moreover have "length (windows (Intraday_status # new)) = fuel * length bucket"
    using p by simp
  ultimately show ?thesis by blast
qed

text \<open>
  C4. In a live run of any length the market state is read at most once, and the run
  returns without an exception only if it has polled no feed and called no strategy
  (the state read was exempted) or it has caught an interrupt. The polling loop itself,
  started on a fresh buffer, never ends by its condition.
\<close>

theorem market_state_read_once:
  assumes "run_live fuel w st symbol_bucket data_feed_type exempted_states exempted_days
             exempted_dates batch_size data_feed_delay fake_feed = (tr, r)"
  shows "status_checks tr \<le> 1
       \<and> (r = Some (Inr ()) \<longrightarrow>
            fetches tr = [] \<and> windows tr = []
            \<or> (\<exists>tr'. tr = tr' @ [Print_newline, Log Critical (Stopped (name st))]))
       \<and> (Buffer batch_size = Inr batch \<longrightarrow>
            snd (polling_loop n w st data_feed_type data_feed batch_size delay fake_feed bucket
                   batch tr1) \<noteq> Some (Inr batch'))"
proof -
  have inner: "Buffer batch_size = Inr batch \<longrightarrow>
            snd (polling_loop n w st data_feed_type data_feed batch_size delay fake_feed bucket
                   batch tr1) \<noteq> Some (Inr batch')"
  proof
    assume "Buffer batch_size = Inr batch"
    from polling_loop_trace [OF fresh_buffer [OF this], of n w st data_feed_type data_feed
        delay fake_feed bucket tr1]
    show "snd (polling_loop n w st data_feed_type data_feed batch_size delay fake_feed bucket
                   batch tr1) \<noteq> Some (Inr batch')"
      by auto
  qed
  obtain tr0 r0 where body:
    "live_body fuel w st symbol_bucket data_feed_type exempted_states exempted_days
       exempted_dates batch_size data_feed_delay fake_feed = (tr0, r0)"
    by (cases "live_body fuel w st symbol_bucket data_feed_type exempted_states exempted_days
       exempted_dates batch_size data_feed_delay fake_feed")
  from run_live_trace [of fuel w st symbol_bucket data_feed_type exempted_states exempted_days
       exempted_dates batch_size data_feed_delay fake_feed]
  have obs: "status_checks tr = status_checks tr0" "fetches tr = fetches tr0"
    "windows tr = windows tr0"
    using assms body by (auto simp: status_checks_append fetches_append windows_append)
  have handled: "r = Some (Inr ()) \<longrightarrow> r0 = Some (Inr ()) \<and> tr = tr0
            \<or> (\<exists>tr'. tr = tr' @ [Print_newline, Log Critical (Stopped (name st))])"
    using assms body
    by (auto simp: run_live_def on_exception_def split: option.splits sum.splits if_splits)
  from body show ?thesis
  proof (cases rule: live_body_cases)
    case (early e)
    with obs handled inner show ?thesis by auto
  next
    case (loop bucket0 tr2 delay0 data_feed0)
    from market_loop_trace [of fuel w st data_feed_type data_feed0 exempted_states batch_size
        delay0 fake_feed bucket0 tr2]
    obtain new where new: "tr0 = tr2 @ new" "status_checks new \<le> 1"
      "r0 = Some (Inr ()) \<longrightarrow> new = [Intraday_status]"
      using loop(9) by auto
    have "status_checks tr \<le> 1"
      using obs(1) new(1,2) loop(6) by (simp add: status_checks_append)
    moreover have "r0 = Some (Inr ()) \<longrightarrow> fetches tr = [] \<and> windows tr = []"
      using obs(2,3) new(1,3) loop(4,7) by (auto simp: fetches_append windows_append)
    ultimately show ?thesis using handled inner by blast
  qed
qed


lemma live_run_never_ends:
  assumes "live w ''US_STOCKS_live_feed'' = Some data_feed"
    and "quiet w st data_feed" and "1 \<le> batch_size"
    and "intraday_status w 1 = Inr state" and "state \<notin> set exempted_states"
  shows "\<exists>tr. run_live (Suc fuel) w st (PyList bucket) ''US_STOCKS_live_feed''
                 exempted_states exempted_days exempted_dates batch_size data_feed_delay
                 fake_feed = (tr, None)
           \<and> length (windows tr) = fuel * length bucket"
proof -
  from market_loop_quiet [OF assms(2,3), of "[Log Info (Entering_live (name st))]" state
      exempted_states fuel "''US_STOCKS_live_feed''" data_feed_delay fake_feed bucket]
  obtain new where
    "market_loop (Suc fuel) w st ''US_STOCKS_live_feed'' data_feed exempted_states batch_size
       data_feed_delay fake_feed bucket [Log Info (Entering_live (name st))]
     = ([Log Info (Entering_live (name st))] @ new, None)"
    and "length (windows new) = fuel * length bucket"
    using assms(4,5) by auto
  then show ?thesis
    using assms(1)
    by (simp add: run_live_def live_body_def recognized_def pacing_def crypto_feeds_def
        del: market_loop.simps)
qed

lemma demo_quiet: "quiet (demo_world states) demo_strategy demo_feed"
  by (simp add: quiet_def demo_world_def demo_strategy_def demo_feed_def)

lemma exempted_live_run:
  "run_live 3 (demo_world closing) demo_strategy (PyList [''AAA''])
     ''US_STOCKS_live_feed'' [''open''] [] [] 1000 1 False
   = ([Log Info (Entering_live ''demo''), Intraday_status], Some (Inr ()))"
  by (simp add: run_live_def live_body_def recognized_def pacing_def crypto_feeds_def
      demo_world_def demo_strategy_def closing_def numeral_3_eq_3)

theorem market_state_read_once_witness:
  "(\<forall>fuel. snd (run_live (Suc fuel) (demo_world closing) demo_strategy (PyList [''AAA''])
        ''US_STOCKS_live_feed'' [''closed''] [] [] 1000 1 False) = None
      \<and> length (windows (fst (run_live (Suc fuel) (demo_world closing) demo_strategy
        (PyList [''AAA'']) ''US_STOCKS_live_feed'' [''closed''] [] [] 1000 1 False)))
        = fuel
      \<and> status_checks (fst (run_live (Suc fuel) (demo_world closing) demo_strategy
        (PyList [''AAA'']) ''US_STOCKS_live_feed'' [''closed''] [] [] 1000 1 False))
        \<le> 1)
   \<and> run_live 3 (demo_world closing) demo_strategy (PyList [''AAA''])
        ''US_STOCKS_live_feed'' [''open''] [] [] 1000 1 False
      = ([Log Info (Entering_live ''demo''), Intraday_status], Some (Inr ()))
   \<and> fetches [Log Info (Entering_live ''demo''), Intraday_status] = []"
proof -
  have "snd (run_live (Suc fuel) (demo_world closing) demo_strategy (PyList [''AAA''])
        ''US_STOCKS_live_feed'' [''closed''] [] [] 1000 1 False) = None
      \<and> length (windows (fst (run_live (Suc fuel) (demo_world closing) demo_strategy
        (PyList [''AAA'']) ''US_STOCKS_live_feed'' [''closed''] [] [] 1000 1 False)))
        = fuel
      \<and> status_checks (fst (run_live (Suc fuel) (demo_world closing) demo_strategy
        (PyList [''AAA'']) ''US_STOCKS_live_feed'' [''closed''] [] [] 1000 1 False))
        \<le> 1" for fuel
  proof -
    have feed: "live (demo_world closing) ''US_STOCKS_live_feed'' = Some demo_feed"
      and state: "intraday_status (demo_world closing) 1 = Inr ''open''"
      by (simp_all add: demo_world_def closing_def)
    from live_run_never_ends [OF feed demo_quiet _ state, of 1000 "[''closed'']" fuel
        "[''AAA'']" "[]" "[]" 1 False]
    obtain tr where run:
      "run_live (Suc fuel) (demo_world closing) demo_strategy (PyList [''AAA''])
        ''US_STOCKS_live_feed'' [''closed''] [] [] 1000 1 False = (tr, None)"
      and n: "length (windows tr) = fuel"
      by auto
    from market_state_read_once [OF run] have "status_checks tr \<le> 1" by simp
    with run n show ?thesis by simp
  qed
  then show ?thesis
    using market_state_read_once [OF exempted_live_run] by (simp add: exempted_live_run)
qed

subsection \<open>The rolling buffer\<close>

lemma append_full:
  "length (items b) = capacity b \<Longrightarrow> items (append b x) = tl (items b) @ [x]"
  by (simp add: append_def)

lemma append_room:
  "length (items b) \<noteq> capacity b \<Longrightarrow> items (append b x) = items b @ [x]"
  by (simp add: append_def)

lemma append_capacity: "capacity (append b x) = capacity b"
  by (simp add: append_def)

lemma appends_items:
  assumes "items b = []" and "0 < capacity b"
  shows "items (foldl append b xs) = drop (length xs - capacity b) xs
       \<and> capacity (foldl append b xs) = capacity b"
proof (induction xs rule: rev_induct)
  case Nil
  then show ?case using assms(1) by simp
next
  case (snoc x xs)
  let ?b = "foldl append b xs"
  from snoc have its: "items ?b = drop (length xs - capacity b) xs"
    and cap: "capacity ?b = capacity b"
    by simp_all
  show ?case
  proof (cases "capacity b \<le> length xs")
    case True
    then have full: "length (items ?b) = capacity ?b"
      using assms(2) by (simp add: its cap)
    have "tl (drop (length xs - capacity b) xs) @ [x]
          = drop (Suc (length xs) - capacity b) (xs @ [x])"
      using True assms(2) by (simp add: drop_Suc [symmetric] tl_drop Suc_diff_le drop_tl)
    with append_full [OF full, of x] show ?thesis
      by (simp add: append_capacity its cap)
  next
    case False
    then have "length (items ?b) \<noteq> capacity ?b"
      by (simp add: its cap)
    from append_room [OF this, of x] False show ?thesis
      by (simp add: append_capacity its cap)
  qed
qed

lemma live_windows_bounded:
  assumes "run_live fuel w st symbol_bucket data_feed_type exempted_states exempted_days
             exempted_dates batch_size data_feed_delay fake_feed = (tr, r)"
  shows "\<forall>d \<in> set (windows tr). int (length d) \<le> batch_size"
proof -
  obtain tr0 r0 where body:
    "live_body fuel w st symbol_bucket data_feed_type exempted_states exempted_days
       exempted_dates batch_size data_feed_delay fake_feed = (tr0, r0)"
    by (cases "live_body fuel w st symbol_bucket data_feed_type exempted_states exempted_days
       exempted_dates batch_size data_feed_delay fake_feed")
  from run_live_trace [of fuel w st symbol_bucket data_feed_type exempted_states exempted_days
       exempted_dates batch_size data_feed_delay fake_feed]
  have tr: "windows tr = windows tr0"
    using assms body by (auto simp: windows_append)
  from body show ?thesis
  proof (cases rule: live_body_cases)
    case (early e)
    with tr show ?thesis by simp
  next
    case (loop bucket tr1 delay data_feed)
    from market_loop_trace [of fuel w st data_feed_type data_feed exempted_states batch_size
        delay fake_feed bucket tr1]
    obtain new where "tr0 = tr1 @ new"
      "\<forall>d \<in> set (windows new). int (length d) \<le> batch_size"
      using loop(9) by auto
    with tr loop(4) show ?thesis by (simp add: windows_append)
  qed
qed

text \<open>
  C2. A buffer built with a capacity \<open>c\<close> of at least 1, after any sequence \<open>xs\<close> of
  appends, holds the last \<open>c\<close> elements of \<open>xs\<close> in their order, so never more than
  \<open>c\<close>; once \<open>c\<close> elements have been appended, a further append drops the oldest
  element and stores the new one last. In a live run no window handed to the strategy,
  which is the whole buffer, is longer than \<open>batch_size\<close>.
\<close>

theorem rolling_buffer_bounded:
  assumes "1 \<le> c"
    and "run_live fuel w st symbol_bucket data_feed_type exempted_states exempted_days
           exempted_dates batch_size data_feed_delay fake_feed = (tr, r)"
  shows "(\<exists>b. Buffer c = Inr b
            \<and> len (foldl append b xs) \<le> c
            \<and> items (foldl append b xs) = drop (length xs - nat c) xs
            \<and> (c \<le> int (length xs) \<longrightarrow>
                 items (foldl append b (xs @ [x])) = tl (items (foldl append b xs)) @ [x]))
       \<and> (\<forall>d \<in> set (windows tr). int (length d) \<le> batch_size)"
proof -
  define b where "b = \<lparr>capacity = nat c, items = []\<rparr>"
  have buf: "Buffer c = Inr b"
    using assms(1) by (simp add: Buffer_def b_def)
  have fresh: "items b = []" "0 < capacity b" "capacity b = nat c"
    using assms(1) by (simp_all add: b_def)
  from appends_items [OF fresh(1,2)]
  have its: "\<And>ys. items (foldl append b ys) = drop (length ys - nat c) ys"
    and cap: "\<And>ys. capacity (foldl append b ys) = nat c"
    by (simp_all add: fresh(3))
  have "len (foldl append b xs) \<le> c"
    using assms(1) by (simp add: len_def its)
  moreover have "c \<le> int (length xs) \<longrightarrow>
      items (foldl append b (xs @ [x])) = tl (items (foldl append b xs)) @ [x]"
  proof
    assume "c \<le> int (length xs)"
    then have "length (items (foldl append b xs)) = capacity (foldl append b xs)"
      using assms(1) by (simp add: its cap)
    from append_full [OF this, of x]
    show "items (foldl append b (xs @ [x])) = tl (items (foldl append b xs)) @ [x]"
      by simp
  qed
  ultimately show ?thesis
    using buf its live_windows_bounded [OF assms(2)] by blast
qed

lemma small_batch_live_run:
  "run_live 4 (demo_world closing) demo_strategy (PyList [''AAA''])
     ''US_STOCKS_live_feed'' [''closed''] [''''] [''''] 2 1 False
   = ([Log Info (Entering_live ''demo''), Intraday_status,
       Live_feed ''US_STOCKS_live_feed'' ''AAA'' False, Strategy_live [[2]], Sleep (1 / 1000),
       Live_feed ''US_STOCKS_live_feed'' ''AAA'' False, Strategy_live [[2], [5]],
       Sleep (1 / 1000),
       Live_feed ''US_STOCKS_live_feed'' ''AAA'' False, Strategy_live [[5], [8]],
       Sleep (1 / 1000)], None)"
  by (simp add: run_live_def live_body_def recognized_def pacing_def crypto_feeds_def
      demo_world_def demo_strategy_def Buffer_def demo_feed_def Let_def append_def
      DataFrame_def len_def closing_def popleft_def numeral_eq_Suc)

theorem rolling_buffer_bounded_witness:
  "(1 :: int) \<le> 3
   \<and> Buffer 3 = Inr \<lparr>capacity = 3, items = []\<rparr>
   \<and> items (foldl append \<lparr>capacity = 3, items = []\<rparr> [[1], [2], [3], [4]]) = [[2], [3], [4]]
   \<and> items (foldl append \<lparr>capacity = 3, items = []\<rparr> ([[1], [2], [3], [4]] @ [[5]]))
      = [[3], [4], [5]]
   \<and> len (foldl append \<lparr>capacity = 3, items = []\<rparr> [[1], [2], [3], [4]]) \<le> 3
   \<and> windows (fst (run_live 4 (demo_world closing) demo_strategy (PyList [''AAA''])
        ''US_STOCKS_live_feed'' [''closed''] [''''] [''''] 2 1 False))
      = [[[2]], [[2], [5]], [[5], [8]]]"
proof -
  have c: "(1 :: int) \<le> 3" by simp
  have buf: "Buffer 3 = Inr \<lparr>capacity = 3, items = []\<rparr>"
    by (simp add: Buffer_def)
  from rolling_buffer_bounded [OF c small_batch_live_run, of "[[1], [2], [3], [4]]" "[5]"]
  have "len (foldl append \<lparr>capacity = 3, items = []\<rparr> [[1], [2], [3], [4]]) \<le> 3"
    and "items (foldl append \<lparr>capacity = 3, items = []\<rparr> [[1], [2], [3], [4]]) = [[2], [3], [4]]"
    and "items (foldl append \<lparr>capacity = 3, items = []\<rparr> ([[1], [2], [3], [4]] @ [[5]]))
      = [[3], [4], [5]]"
    by (simp_all add: buf)
  with c buf show ?thesis by (simp add: small_batch_live_run)
qed


subsection \<open>The empty bucket\<close>

lemma empty_live_run:
  "run_live fuel (demo_world closing) demo_strategy (PyList []) ''US_STOCKS_live_feed''
     [''closed''] [] [] 1000 1 False
   = (if fuel = 0 then [Log Info (Entering_live ''demo'')]
      else [Log Info (Entering_live ''demo''), Intraday_status], None)"
proof (cases fuel)
  case 0
  then show ?thesis
    by (simp add: run_live_def live_body_def recognized_def pacing_def crypto_feeds_def
        demo_world_def demo_strategy_def)
next
  case (Suc n)
  have "len \<lparr>capacity = 1000, items = []\<rparr> < 1000" by (simp add: len_def)
  from polling_loop_empty_bucket [OF this]
  show ?thesis
    by (simp add: Suc run_live_def live_body_def recognized_def pacing_def crypto_feeds_def
        demo_world_def demo_strategy_def closing_def Buffer_def)
qed

text \<open>
  C5. An empty symbol bucket is not rejected. The backtest logs its start and returns;
  the live run, on an open market, reads the market state and then neither returns nor
  raises, however long it runs. No data source is called in either.
\<close>

theorem empty_bucket_is_not_rejected:
  "run_backtest (demo_world closing) demo_strategy [] ''US_STOCKS_daily''
     ''2019-01-01'' ''2019-01-04'' ''1d'' ''close'' ''SPY'' 5000 0 False
   = ([Log Info (Starting_backtest ''demo'' ''2019-01-01'' ''2019-01-04'' 5000)], Inr ())
   \<and> (\<forall>fuel. snd (run_live fuel (demo_world closing) demo_strategy (PyList [])
          ''US_STOCKS_live_feed'' [''closed''] [] [] 1000 1 False) = None
        \<and> fetches (fst (run_live fuel (demo_world closing) demo_strategy (PyList [])
          ''US_STOCKS_live_feed'' [''closed''] [] [] 1000 1 False)) = [])"
  by (simp add: empty_backtest_run empty_live_run)

subsection \<open>Case of the exempted states\<close>

text \<open>
  C6. The exempted states are compared as the caller wrote them. With \<open>CLOSED\<close>
  exempted and the market state \<open>closed\<close>, which is in the lower-cased list, the loop
  is entered and the strategy is called.
\<close>

theorem exempted_states_compared_as_given:
  "windows (fst (run_live 2 (demo_world (\<lambda>t. ''closed'')) demo_strategy (PyList [''AAA''])
     ''US_STOCKS_live_feed'' [''CLOSED''] [] [] 1000 1 False)) = [[[2]]]
   \<and> intraday_status (demo_world (\<lambda>t. ''closed'')) 1 = Inr ''closed''
   \<and> ''closed'' \<in> set (map lower [''CLOSED''])"
  by (simp add: uppercase_live_run lower_CLOSED) (simp add: demo_world_def)

subsection \<open>The failure boundary\<close>

text \<open>
  A call that fails ends the try block: in the trace of a try block at most one call has
  failed, and when one has, its exception is the outcome of the block. This is shown
  loop by loop, for a trace in which no call has failed so far.
\<close>

lemma failed_calls_append:
  "failed_calls w st t (xs @ ys)
   = failed_calls w st t xs @ failed_calls w st (t + length xs) ys"
  by (induction xs arbitrary: t) (simp_all split: option.splits)

lemma bars_loop_failures:
  assumes "failed_calls w st 0 tr = []"
  shows "failed_calls w st 0 (fst (bars_loop st rest batch backtest tr)) = []
       \<or> (\<exists>e. failed_calls w st 0 (fst (bars_loop st rest batch backtest tr)) = [e]
              \<and> snd (bars_loop st rest batch backtest tr) = Inl e)"
  using assms
proof (induction rest arbitrary: batch backtest tr)
  case Nil
  then show ?case by simp
next
  case (Cons p rest)
  obtain dt b where p: "p = (dt, b)" by (cases p)
  let ?c = "update_bar backtest dt b"
  let ?d = "DataFrame (append batch b)"
  let ?tr2 = "tr @ [Update_bar dt b, Strategy_backtest ?c ?d]"
  show ?case
  proof (cases "on_backtest st (Suc (length tr)) ?c ?d")
    case (Inl e)
    with Cons.prems show ?thesis
      by (simp add: p Let_def failed_calls_append)
  next
    case (Inr c1)
    with Cons.prems have "failed_calls w st 0 ?tr2 = []"
      by (simp add: failed_calls_append)
    from Cons.IH [OF this, of "append batch b" c1] Inr show ?thesis
      by (simp add: p Let_def)
  qed
qed

lemma symbols_loop_failures:
  assumes "historical w data = Some src" and "failed_calls w st 0 tr = []"
  shows "failed_calls w st 0
           (fst (symbols_loop st data src symbols start end data_interval tr)) = []
       \<or> (\<exists>e. failed_calls w st 0
                (fst (symbols_loop st data src symbols start end data_interval tr)) = [e]
              \<and> snd (symbols_loop st data src symbols start end data_interval tr) = Inl e)"
  using assms(2)
proof (induction symbols arbitrary: tr)
  case Nil
  then show ?case by simp
next
  case (Cons symbol rest)
  let ?tr1 = "tr @ [Historical data symbol start end data_interval]"
  show ?case
  proof (cases "src symbol start end data_interval")
    case (Inl e)
    with Cons.prems assms(1) show ?thesis
      by (simp add: Let_def failed_calls_append)
  next
    case (Inr data_batch)
    with Cons.prems assms(1) have tr1: "failed_calls w st 0 ?tr1 = []"
      by (simp add: failed_calls_append)
    show ?thesis
    proof (cases "Buffer (int (length data_batch))")
      case (Inl e)
      with Inr tr1 show ?thesis by (simp add: Let_def)
    next
      case buf: (Inr batch)
      let ?tr2 = "?tr1 @ [New_backtest 100000 1 True]"
      have tr2: "failed_calls w st 0 ?tr2 = []"
        using Cons.prems assms(1) Inr by (simp add: failed_calls_append)
      obtain tr3 r where bars:
        "bars_loop st data_batch batch (Backtest 100000 1 True) ?tr2 = (tr3, r)"
        by (cases "bars_loop st data_batch batch (Backtest 100000 1 True) ?tr2")
      from bars_loop_failures [OF tr2, of data_batch batch "Backtest 100000 1 True"] bars
      have b: "failed_calls w st 0 tr3 = [] \<or> (\<exists>e. failed_calls w st 0 tr3 = [e] \<and> r = Inl e)"
        by simp
      show ?thesis
      proof (cases r)
        case (Inl e)
        with Inr buf bars b show ?thesis by (simp add: Let_def)
      next
        case ok: (Inr backtest1)
        with b have "failed_calls w st 0 (tr3 @ [Print_trade_log backtest1]) = []"
          by (simp add: failed_calls_append)
        from Cons.IH [OF this] Inr buf bars ok show ?thesis
          by (simp add: Let_def)
      qed
    qed
  qed
qed

lemma backtest_body_failures:
  "failed_calls w st 0
     (fst (backtest_body w st symbol_bucket data start end data_interval initial_capital)) = []
   \<or> (\<exists>e. failed_calls w st 0
          (fst (backtest_body w st symbol_bucket data start end data_interval
                  initial_capital)) = [e]
        \<and> snd (backtest_body w st symbol_bucket data start end data_interval initial_capital)
            = Inl e)"
proof (cases "historical w data")
  case None
  then show ?thesis by (simp add: backtest_body_def)
next
  case (Some src)
  have "failed_calls w st 0 [Log Info (Starting_backtest (name st) start end initial_capital)]
        = []"
    by simp
  from symbols_loop_failures [OF Some this] Some show ?thesis
    by (simp add: backtest_body_def)
qed


lemma poll_symbols_failures:
  assumes "live w feed = Some data_feed" and "failed_calls w st 0 tr = []"
  shows "failed_calls w st 0
           (fst (poll_symbols w st feed data_feed batch_size delay fake_feed bucket batch tr))
         = []
       \<or> (\<exists>e. failed_calls w st 0
                (fst (poll_symbols w st feed data_feed batch_size delay fake_feed bucket
                        batch tr)) = [e]
              \<and> snd (poll_symbols w st feed data_feed batch_size delay fake_feed bucket
                        batch tr) = Inl e)"
  using assms(2)
proof (induction bucket arbitrary: batch tr)
  case Nil
  then show ?case by simp
next
  case (Cons symbol rest)
  let ?tr1 = "tr @ [Live_feed feed symbol fake_feed]"
  show ?case
  proof (cases "data_feed (length tr) symbol fake_feed")
    case (Inl e)
    with Cons.prems assms(1) show ?thesis
      by (simp add: Let_def failed_calls_append)
  next
    case (Inr b)
    let ?d = "DataFrame (append batch b)"
    let ?tr2 = "?tr1 @ [Strategy_live ?d]"
    show ?thesis
    proof (cases "on_live st (Suc (length tr)) ?d")
      case (Some e)
      with Cons.prems assms(1) Inr show ?thesis
        by (simp add: Let_def failed_calls_append)
    next
      case None
      have tr2: "failed_calls w st 0 ?tr2 = []"
        using Cons.prems assms(1) Inr None by (simp add: failed_calls_append)
      show ?thesis
      proof (cases "if len (append batch b) = batch_size then popleft (append batch b)
                    else Inr (append batch b)")
        case (Inl e)
        with Inr None tr2 show ?thesis by (simp add: Let_def)
      next
        case evict: (Inr batch2)
        let ?tr3 = "?tr2 @ [Sleep (delay / 1000)]"
        show ?thesis
        proof (cases "sleep w (Suc (Suc (length tr)))")
          case (Some e)
          with Cons.prems assms(1) Inr None evict show ?thesis
            by (simp add: Let_def failed_calls_append)
        next
          case slept: None
          have "failed_calls w st 0 ?tr3 = []"
            using Cons.prems assms(1) Inr None slept by (simp add: failed_calls_append)
          from Cons.IH [OF this, of batch2] Inr None evict slept show ?thesis
            by (simp add: Let_def)
        qed
      qed
    qed
  qed
qed

lemma polling_loop_failures:
  assumes "live w feed = Some data_feed" and "failed_calls w st 0 tr = []"
  shows "failed_calls w st 0
           (fst (polling_loop fuel w st feed data_feed batch_size delay fake_feed bucket
                   batch tr)) = []
       \<or> (\<exists>e. failed_calls w st 0
                (fst (polling_loop fuel w st feed data_feed batch_size delay fake_feed bucket
                        batch tr)) = [e]
              \<and> snd (polling_loop fuel w st feed data_feed batch_size delay fake_feed bucket
                        batch tr) = Some (Inl e))"
  using assms(2)
proof (induction fuel arbitrary: batch tr)
  case 0
  then show ?case by simp
next
  case (Suc fuel)
  obtain tr1 r1 where polled:
    "poll_symbols w st feed data_feed batch_size delay fake_feed bucket batch tr = (tr1, r1)"
    by (cases "poll_symbols w st feed data_feed batch_size delay fake_feed bucket batch tr")
  from poll_symbols_failures [OF assms(1) Suc.prems, of batch_size delay fake_feed bucket batch]
    polled
  have p: "failed_calls w st 0 tr1 = [] \<or> (\<exists>e. failed_calls w st 0 tr1 = [e] \<and> r1 = Inl e)"
    by simp
  show ?case
  proof (cases "len batch < batch_size")
    case False
    with Suc.prems show ?thesis by simp
  next
    case True
    show ?thesis
    proof (cases r1)
      case (Inl e)
      with True polled p show ?thesis by simp
    next
      case (Inr batch1)
      with p have "failed_calls w st 0 tr1 = []" by simp
      from Suc.IH [OF this, of batch1] True polled Inr show ?thesis by simp
    qed
  qed
qed

lemma market_loop_failures:
  assumes "live w feed = Some data_feed" and "failed_calls w st 0 tr = []"
  shows "failed_calls w st 0
           (fst (market_loop fuel w st feed data_feed exempted_states batch_size delay
                   fake_feed bucket tr)) = []
       \<or> (\<exists>e. failed_calls w st 0
                (fst (market_loop fuel w st feed data_feed exempted_states batch_size delay
                        fake_feed bucket tr)) = [e]
              \<and> snd (market_loop fuel w st feed data_feed exempted_states batch_size delay
                        fake_feed bucket tr) = Some (Inl e))"
  using assms(2)
proof (induction fuel arbitrary: tr)
  case 0
  then show ?case by simp
next
  case (Suc fuel)
  let ?tr1 = "tr @ [Intraday_status]"
  show ?case
  proof (cases "intraday_status w (length tr)")
    case (Inl e)
    with Suc.prems show ?thesis by (simp add: Let_def failed_calls_append)
  next
    case (Inr state)
    with Suc.prems have tr1: "failed_calls w st 0 ?tr1 = []"
      by (simp add: failed_calls_append)
    show ?thesis
    proof (cases "state \<in> set exempted_states")
      case True
      with Inr tr1 show ?thesis by (simp add: Let_def)
    next
      case False
      show ?thesis
      proof (cases "Buffer batch_size")
        case (Inl e)
        with Inr False tr1 show ?thesis by (simp add: Let_def)
      next
        case buf: (Inr batch)
        obtain tr2 r2 where polled:
          "polling_loop fuel w st feed data_feed batch_size delay fake_feed bucket batch ?tr1
           = (tr2, r2)"
          by (cases "polling_loop fuel w st feed data_feed batch_size delay fake_feed bucket
                       batch ?tr1")
        from polling_loop_failures [OF assms(1) tr1, of fuel batch_size delay fake_feed bucket
            batch] polled
        have p: "failed_calls w st 0 tr2 = []
                 \<or> (\<exists>e. failed_calls w st 0 tr2 = [e] \<and> r2 = Some (Inl e))"
          by simp
        show ?thesis
        proof (cases r2)
          case None
          with Inr False buf polled p show ?thesis by (simp add: Let_def)
        next
          case (Some a)
          show ?thesis
          proof (cases a)
            case (Inl e)
            with Some Inr False buf polled p show ?thesis by (simp add: Let_def)
          next
            case ended: (Inr batch1)
            with Some p have "failed_calls w st 0 tr2 = []" by simp
            from Suc.IH [OF this] Some ended Inr False buf polled show ?thesis
              by (simp add: Let_def)
          qed
        qed
      qed
    qed
  qed
qed

lemma live_body_failures:
  "failed_calls w st 0
     (fst (live_body fuel w st symbol_bucket data_feed_type exempted_states exempted_days
             exempted_dates batch_size data_feed_delay fake_feed)) = []
   \<or> (\<exists>e. failed_calls w st 0
          (fst (live_body fuel w st symbol_bucket data_feed_type exempted_states exempted_days
                  exempted_dates batch_size data_feed_delay fake_feed)) = [e]
        \<and> snd (live_body fuel w st symbol_bucket data_feed_type exempted_states exempted_days
                  exempted_dates batch_size data_feed_delay fake_feed) = Some (Inl e))"
proof (cases "check_bucket symbol_bucket")
  case (Inl e)
  then show ?thesis by (simp add: live_body_def)
next
  case bucket: (Inr bucket)
  show ?thesis
  proof (cases "data_feed_type \<in> set recognized")
    case False
    with bucket show ?thesis by (simp add: live_body_def)
  next
    case True
    let ?tr0 = "[Log Info (Entering_live (name st))]"
    obtain tr1 p where pac: "pacing w data_feed_type data_feed_delay ?tr0 = (tr1, p)"
      by (cases "pacing w data_feed_type data_feed_delay ?tr0")
    show ?thesis
    proof (cases p)
      case (Inl e)
      with pac have "failed_calls w st 0 tr1 = [e]"
        by (auto simp: pacing_def split: if_splits)
      with bucket True pac Inl show ?thesis by (simp add: live_body_def)
    next
      case delay: (Inr delay)
      with pac have tr1: "failed_calls w st 0 tr1 = []"
        by (auto simp: pacing_def split: if_splits)
      show ?thesis
      proof (cases "live w data_feed_type")
        case None
        with bucket True pac delay tr1 show ?thesis by (simp add: live_body_def)
      next
        case (Some data_feed)
        from market_loop_failures [OF Some tr1] bucket True pac delay Some show ?thesis
          by (simp add: live_body_def)
      qed
    qed
  qed
qed


text \<open>Sample runs in which the strategy raises at its second call.\<close>

lemma passing_backtest_run:
  "run_backtest (demo_world closing) (raising_strategy GeneratorExit) [''AAA'']
     ''US_STOCKS_daily'' ''2019-01-01'' ''2019-01-04'' ''1d'' ''close'' ''SPY'' 5000 0 False
   = ([Log Info (Starting_backtest ''raising'' ''2019-01-01'' ''2019-01-04'' 5000),
       Historical ''US_STOCKS_daily'' ''AAA'' ''2019-01-01'' ''2019-01-04'' ''1d'',
       New_backtest 100000 1 True,
       Update_bar 1 [10],
       Strategy_backtest \<lparr>capital = 100000, commission = 1, enable_slippage = True,
          ledger = [(1, [10])]\<rparr> [[10]],
       Update_bar 2 [11],
       Strategy_backtest \<lparr>capital = 100000, commission = 1, enable_slippage = True,
          ledger = [(1, [10]), (2, [11])]\<rparr> [[10], [11]]],
      Inl GeneratorExit)"
  by (simp add: run_backtest_def backtest_body_def on_exception_def demo_world_def
      raising_strategy_def demo_history_def Buffer_def Backtest_def append_def update_bar_def
      DataFrame_def Let_def)

text \<open>
  C10, as stated, fails: a strategy that raises \<open>GeneratorExit\<close>, which is neither an
  interrupt of line 94 nor an \<^verbatim>\<open>Exception\<close>, leaves \<^verbatim>\<open>run_backtest\<close> with that
  exception and nothing is logged at critical level.
\<close>

theorem unlogged_exception:
  "snd (run_backtest (demo_world closing) (raising_strategy GeneratorExit) [''AAA'']
     ''US_STOCKS_daily'' ''2019-01-01'' ''2019-01-04'' ''1d'' ''close'' ''SPY'' 5000 0 False)
   = Inl GeneratorExit
   \<and> criticals (fst (run_backtest (demo_world closing) (raising_strategy GeneratorExit)
        [''AAA''] ''US_STOCKS_daily'' ''2019-01-01'' ''2019-01-04'' ''1d'' ''close'' ''SPY''
        5000 0 False)) = []
   \<and> \<not> is_interrupt GeneratorExit"
  by (simp add: passing_backtest_run)

text \<open>
  C10, amended. In both functions a failing call of a collaborator ends the try block
  with its exception. When the try block ends with an exception, an interrupt
  (\<open>KeyboardInterrupt\<close> or \<open>SystemExit\<close>) is logged at critical level with the name
  of the strategy and the function returns; an \<^verbatim>\<open>Exception\<close> is logged at critical
  level with the name of the strategy and raised again, the same exception; any other
  exception leaves the function unchanged with nothing logged. Neither function ever
  raises an interrupt to its caller, and neither swallows any other exception.
\<close>

theorem failure_boundary:
  assumes "backtest_body w st symbol_bucket data start end data_interval initial_capital
             = (tr, r)"
    and "live_body fuel w' st' bucket data_feed_type exempted_states exempted_days
           exempted_dates batch_size data_feed_delay fake_feed = (tr', r')"
  shows "(failed_calls w st 0 tr = [] \<or> (\<exists>x. failed_calls w st 0 tr = [x] \<and> r = Inl x))
       \<and> (failed_calls w' st' 0 tr' = []
            \<or> (\<exists>x. failed_calls w' st' 0 tr' = [x] \<and> r' = Some (Inl x)))
       \<and> (r = Inl e \<longrightarrow>
            run_backtest w st symbol_bucket data start end data_interval preferred_price_point
              preferred_benchmark initial_capital commission_arg slippage
            = (if is_interrupt e
               then (tr @ [Print_newline, Log Critical (Stopped (name st))], Inr ())
               else if is_exception e
               then (tr @ [Log Critical (Exiting (name st)), Log Error Oops_backtest], Inl e)
               else (tr, Inl e)))
       \<and> (r' = Some (Inl e') \<longrightarrow>
            run_live fuel w' st' bucket data_feed_type exempted_states exempted_days
              exempted_dates batch_size data_feed_delay fake_feed
            = (if is_interrupt e'
               then (tr' @ [Print_newline, Log Critical (Stopped (name st'))], Some (Inr ()))
               else if is_exception e'
               then (tr' @ [Log Critical (Exiting (name st')), Log Error Oops_live],
                     Some (Inl e'))
               else (tr', Some (Inl e'))))
       \<and> (snd (run_backtest w st symbol_bucket data start end data_interval
                 preferred_price_point preferred_benchmark initial_capital commission_arg
                 slippage) = Inl x \<longrightarrow> \<not> is_interrupt x)
       \<and> (snd (run_live fuel w' st' bucket data_feed_type exempted_states exempted_days
                 exempted_dates batch_size data_feed_delay fake_feed) = Some (Inl x')
            \<longrightarrow> \<not> is_interrupt x')"
proof -
  from backtest_body_failures [of w st symbol_bucket data start "end" data_interval
      initial_capital] assms(1)
  have 1: "failed_calls w st 0 tr = [] \<or> (\<exists>x. failed_calls w st 0 tr = [x] \<and> r = Inl x)"
    by simp
  from live_body_failures [of w' st' fuel bucket data_feed_type exempted_states exempted_days
      exempted_dates batch_size data_feed_delay fake_feed] assms(2)
  have 2: "failed_calls w' st' 0 tr' = []
            \<or> (\<exists>x. failed_calls w' st' 0 tr' = [x] \<and> r' = Some (Inl x))"
    by simp
  have 3: "r = Inl e \<longrightarrow>
            run_backtest w st symbol_bucket data start end data_interval preferred_price_point
              preferred_benchmark initial_capital commission_arg slippage
            = (if is_interrupt e
               then (tr @ [Print_newline, Log Critical (Stopped (name st))], Inr ())
               else if is_exception e
               then (tr @ [Log Critical (Exiting (name st)), Log Error Oops_backtest], Inl e)
               else (tr, Inl e))"
    using assms(1) by (simp add: run_backtest_def on_exception_def)
  have 4: "r' = Some (Inl e') \<longrightarrow>
            run_live fuel w' st' bucket data_feed_type exempted_states exempted_days
              exempted_dates batch_size data_feed_delay fake_feed
            = (if is_interrupt e'
               then (tr' @ [Print_newline, Log Critical (Stopped (name st'))], Some (Inr ()))
               else if is_exception e'
               then (tr' @ [Log Critical (Exiting (name st')), Log Error Oops_live],
                     Some (Inl e'))
               else (tr', Some (Inl e')))"
    using assms(2) by (simp add: run_live_def on_exception_def)
  have 5: "snd (run_backtest w st symbol_bucket data start end data_interval
                 preferred_price_point preferred_benchmark initial_capital commission_arg
                 slippage) = Inl x \<longrightarrow> \<not> is_interrupt x"
    by (auto simp: run_backtest_def on_exception_def split: prod.splits sum.splits if_splits)
  have 6: "snd (run_live fuel w' st' bucket data_feed_type exempted_states exempted_days
                 exempted_dates batch_size data_feed_delay fake_feed) = Some (Inl x')
            \<longrightarrow> \<not> is_interrupt x'"
    by (auto simp: run_live_def on_exception_def
        split: prod.splits sum.splits option.splits if_splits)
  from 1 2 3 4 5 6 show ?thesis by blast
qed

lemma interrupted_backtest_body:
  "backtest_body (demo_world closing) (raising_strategy KeyboardInterrupt) [''AAA'']
     ''US_STOCKS_daily'' ''2019-01-01'' ''2019-01-04'' ''1d'' 5000
   = ([Log Info (Starting_backtest ''raising'' ''2019-01-01'' ''2019-01-04'' 5000),
       Historical ''US_STOCKS_daily'' ''AAA'' ''2019-01-01'' ''2019-01-04'' ''1d'',
       New_backtest 100000 1 True,
       Update_bar 1 [10],
       Strategy_backtest \<lparr>capital = 100000, commission = 1, enable_slippage = True,
          ledger = [(1, [10])]\<rparr> [[10]],
       Update_bar 2 [11],
       Strategy_backtest \<lparr>capital = 100000, commission = 1, enable_slippage = True,
          ledger = [(1, [10]), (2, [11])]\<rparr> [[10], [11]]],
      Inl KeyboardInterrupt)"
  by (simp add: backtest_body_def demo_world_def raising_strategy_def
      demo_history_def Buffer_def Backtest_def append_def update_bar_def DataFrame_def Let_def)

lemma failing_live_body:
  "live_body 3 (demo_world closing) (raising_strategy (Failure ''boom'')) (PyList [''AAA''])
     ''US_STOCKS_live_feed'' [''closed''] [] [] 1000 1 False
   = ([Log Info (Entering_live ''raising''), Intraday_status,
       Live_feed ''US_STOCKS_live_feed'' ''AAA'' False, Strategy_live [[2]], Sleep (1 / 1000),
       Live_feed ''US_STOCKS_live_feed'' ''AAA'' False, Strategy_live [[2], [5]]],
      Some (Inl (Failure ''boom'')))"
  by (simp add: live_body_def recognized_def pacing_def crypto_feeds_def
      demo_world_def raising_strategy_def Buffer_def demo_feed_def Let_def append_def
      DataFrame_def len_def closing_def numeral_3_eq_3)

theorem failure_boundary_witness:
  "backtest_body (demo_world closing) (raising_strategy KeyboardInterrupt) [''AAA'']
     ''US_STOCKS_daily'' ''2019-01-01'' ''2019-01-04'' ''1d'' 5000
   = ([Log Info (Starting_backtest ''raising'' ''2019-01-01'' ''2019-01-04'' 5000),
       Historical ''US_STOCKS_daily'' ''AAA'' ''2019-01-01'' ''2019-01-04'' ''1d'',
       New_backtest 100000 1 True,
       Update_bar 1 [10],
       Strategy_backtest \<lparr>capital = 100000, commission = 1, enable_slippage = True,
          ledger = [(1, [10])]\<rparr> [[10]],
       Update_bar 2 [11],
       Strategy_backtest \<lparr>capital = 100000, commission = 1, enable_slippage = True,
          ledger = [(1, [10]), (2, [11])]\<rparr> [[10], [11]]],
      Inl KeyboardInterrupt)
   \<and> live_body 3 (demo_world closing) (raising_strategy (Failure ''boom'')) (PyList [''AAA''])
     ''US_STOCKS_live_feed'' [''closed''] [] [] 1000 1 False
   = ([Log Info (Entering_live ''raising''), Intraday_status,
       Live_feed ''US_STOCKS_live_feed'' ''AAA'' False, Strategy_live [[2]], Sleep (1 / 1000),
       Live_feed ''US_STOCKS_live_feed'' ''AAA'' False, Strategy_live [[2], [5]]],
      Some (Inl (Failure ''boom'')))
   \<and> run_backtest (demo_world closing) (raising_strategy KeyboardInterrupt) [''AAA'']
     ''US_STOCKS_daily'' ''2019-01-01'' ''2019-01-04'' ''1d'' ''close'' ''SPY'' 5000 0 False
   = ([Log Info (Starting_backtest ''raising'' ''2019-01-01'' ''2019-01-04'' 5000),
       Historical ''US_STOCKS_daily'' ''AAA'' ''2019-01-01'' ''2019-01-04'' ''1d'',
       New_backtest 100000 1 True,
       Update_bar 1 [10],
       Strategy_backtest \<lparr>capital = 100000, commission = 1, enable_slippage = True,
          ledger = [(1, [10])]\<rparr> [[10]],
       Update_bar 2 [11],
       Strategy_backtest \<lparr>capital = 100000, commission = 1, enable_slippage = True,
          ledger = [(1, [10]), (2, [11])]\<rparr> [[10], [11]],
       Print_newline, Log Critical (Stopped ''raising'')],
      Inr ())
   \<and> run_live 3 (demo_world closing) (raising_strategy (Failure ''boom'')) (PyList [''AAA''])
     ''US_STOCKS_live_feed'' [''closed''] [] [] 1000 1 False
   = ([Log Info (Entering_live ''raising''), Intraday_status,
       Live_feed ''US_STOCKS_live_feed'' ''AAA'' False, Strategy_live [[2]], Sleep (1 / 1000),
       Live_feed ''US_STOCKS_live_feed'' ''AAA'' False, Strategy_live [[2], [5]],
       Log Critical (Exiting ''raising''), Log Error Oops_live],
      Some (Inl (Failure ''boom'')))
   \<and> failed_calls (demo_world closing) (raising_strategy KeyboardInterrupt) 0
       [Log Info (Starting_backtest ''raising'' ''2019-01-01'' ''2019-01-04'' 5000),
        Historical ''US_STOCKS_daily'' ''AAA'' ''2019-01-01'' ''2019-01-04'' ''1d'',
        New_backtest 100000 1 True,
        Update_bar 1 [10],
        Strategy_backtest \<lparr>capital = 100000, commission = 1, enable_slippage = True,
           ledger = [(1, [10])]\<rparr> [[10]],
        Update_bar 2 [11],
        Strategy_backtest \<lparr>capital = 100000, commission = 1, enable_slippage = True,
           ledger = [(1, [10]), (2, [11])]\<rparr> [[10], [11]]]
      = [KeyboardInterrupt]"
proof -
  have names: "name (raising_strategy KeyboardInterrupt) = ''raising''"
    "name (raising_strategy (Failure ''boom'')) = ''raising''"
    by (simp_all add: raising_strategy_def)
  note facts = failure_boundary [OF interrupted_backtest_body failing_live_body,
      of KeyboardInterrupt "''close''" "''SPY''" 0 False "Failure ''boom''"]
  from facts have one:
    "run_backtest (demo_world closing) (raising_strategy KeyboardInterrupt) [''AAA'']
     ''US_STOCKS_daily'' ''2019-01-01'' ''2019-01-04'' ''1d'' ''close'' ''SPY'' 5000 0 False
   = ([Log Info (Starting_backtest ''raising'' ''2019-01-01'' ''2019-01-04'' 5000),
       Historical ''US_STOCKS_daily'' ''AAA'' ''2019-01-01'' ''2019-01-04'' ''1d'',
       New_backtest 100000 1 True,
       Update_bar 1 [10],
       Strategy_backtest \<lparr>capital = 100000, commission = 1, enable_slippage = True,
          ledger = [(1, [10])]\<rparr> [[10]],
       Update_bar 2 [11],
       Strategy_backtest \<lparr>capital = 100000, commission = 1, enable_slippage = True,
          ledger = [(1, [10]), (2, [11])]\<rparr> [[10], [11]]]
       @ [Print_newline, Log Critical (Stopped ''raising'')],
      Inr ())"
    by (simp add: names)
  from facts have two:
    "run_live 3 (demo_world closing) (raising_strategy (Failure ''boom''))
     (PyList [''AAA'']) ''US_STOCKS_live_feed'' [''closed''] [] [] 1000 1 False
   = ([Log Info (Entering_live ''raising''), Intraday_status,
       Live_feed ''US_STOCKS_live_feed'' ''AAA'' False, Strategy_live [[2]], Sleep (1 / 1000),
       Live_feed ''US_STOCKS_live_feed'' ''AAA'' False, Strategy_live [[2], [5]]]
       @ [Log Critical (Exiting ''raising''), Log Error Oops_live],
      Some (Inl (Failure ''boom'')))"
    by (simp add: names)
  have three: "failed_calls (demo_world closing) (raising_strategy KeyboardInterrupt) 0
       [Log Info (Starting_backtest ''raising'' ''2019-01-01'' ''2019-01-04'' 5000),
        Historical ''US_STOCKS_daily'' ''AAA'' ''2019-01-01'' ''2019-01-04'' ''1d'',
        New_backtest 100000 1 True,
        Update_bar 1 [10],
        Strategy_backtest \<lparr>capital = 100000, commission = 1, enable_slippage = True,
           ledger = [(1, [10])]\<rparr> [[10]],
        Update_bar 2 [11],
        Strategy_backtest \<lparr>capital = 100000, commission = 1, enable_slippage = True,
           ledger = [(1, [10]), (2, [11])]\<rparr> [[10], [11]]]
      = [KeyboardInterrupt]"
    by (simp add: demo_world_def raising_strategy_def demo_history_def)
  from one two three interrupted_backtest_body failing_live_body show ?thesis by simp
qed

end
